theory Spec2Isabelle
  imports Complex_Main "HOL-Library.Monad_Syntax"
begin

section \<open>Data model\<close>

text \<open>
  The enumerations of the relational schema (\<^verbatim>\<open>UserRole\<close>, \<^verbatim>\<open>IssueStatus\<close>,
  \<^verbatim>\<open>IssuePriority\<close>) and one record per table. Identifiers are strings, instants are
  integers (milliseconds). The column \<^verbatim>\<open>updatedAt\<close>, which the ORM maintains by itself
  and no handler reads or writes, is not part of the model. The declaration of the ORM
  schema is not among the sources; the geo-coordinates are optional, as the request
  types and the data model of the specification have them and as the handlers that
  create an issue without coordinates need them to be.
\<close>

datatype UserRole = ADMIN | SUPERVISOR | USER | OFFICE

datatype IssueStatus = PENDING | IN_PROGRESS | COMPLETED | REJECTED | CANCELLED

datatype IssuePriority = LOW | MEDIUM | HIGH | EMERGENCY

record User =
  u_id :: string
  u_email :: string
  u_username :: string
  u_password :: string
  u_firstName :: string
  u_lastName :: string
  u_phone :: "string option"
  u_role :: UserRole
  u_isActive :: bool
  u_createdAt :: int

record Category =
  c_id :: string
  c_name :: string
  c_nameEn :: "string option"
  c_description :: "string option"
  c_color :: string
  c_icon :: "string option"
  c_isActive :: bool

record Subcategory =
  s_id :: string
  s_name :: string
  s_estimatedDays :: "int option"
  s_isActive :: bool
  s_categoryId :: string

record Issue =
  i_id :: string
  i_title :: string
  i_description :: string
  i_address :: string
  i_latitude :: "real option"
  i_longitude :: "real option"
  i_status :: IssueStatus
  i_priority :: IssuePriority
  i_isEmergency :: bool
  i_referenceNumber :: string
  i_completedAt :: "int option"
  i_createdAt :: int
  i_categoryId :: string
  i_subcategoryId :: "string option"
  i_createdById :: string
  i_assignedToId :: "string option"

record Photo =
  p_id :: string
  p_filename :: string
  p_originalName :: string
  p_mimeType :: string
  p_size :: int
  p_path :: string
  p_description :: "string option"
  p_issueId :: string
  p_uploadedById :: string
  p_createdAt :: int

record Comment =
  m_id :: string
  m_isInternal :: bool
  m_issueId :: string
  m_authorId :: string

text \<open>The persistence service: one list of rows per table.\<close>

record Db =
  users :: "User list"
  categories :: "Category list"
  subcategories :: "Subcategory list"
  issues :: "Issue list"
  photos :: "Photo list"
  comments :: "Comment list"

text \<open>
  A handler answers with an error envelope (\<^verbatim>\<open>res.status(n).json({success: false,
  message})\<close>) or with the data of a success envelope.
\<close>

datatype ApiError = ApiError nat string

definition internal_error :: ApiError where
  "internal_error = ApiError 500 ''Internal server error''"

text \<open>
  \<^verbatim>\<open>req.user\<close>, set by the \<^verbatim>\<open>authenticate\<close> middleware; the handlers read its
  \<^verbatim>\<open>id\<close> and \<^verbatim>\<open>role\<close> only.
\<close>

record AuthUser =
  au_id :: string
  au_role :: UserRole

section \<open>User administration\<close>

text \<open>
  \<^verbatim>\<open>deleteUser\<close> of \<^verbatim>\<open>user.controller.ts\<close>. A user that created issues is
  deactivated; any other user is removed, which the store refuses (a failure caught as
  500) while a photo or a comment still refers to the user; an issue assigned to a
  removed user becomes unassigned.
\<close>

definition user_hard_delete :: "string \<Rightarrow> Db \<Rightarrow> Db option" where
  "user_hard_delete uid db =
     (if (\<exists>i \<in> set (issues db). i_createdById i = uid)
         \<or> (\<exists>p \<in> set (photos db). p_uploadedById p = uid)
         \<or> (\<exists>m \<in> set (comments db). m_authorId m = uid)
      then None
      else Some (db\<lparr>users := filter (\<lambda>u. u_id u \<noteq> uid) (users db),
                    issues := map (\<lambda>i. if i_assignedToId i = Some uid
                                          then i\<lparr>i_assignedToId := None\<rparr> else i) (issues db)\<rparr>))"

definition deleteUser :: "AuthUser option \<Rightarrow> string \<Rightarrow> Db \<Rightarrow> (ApiError + string) \<times> Db" where
  "deleteUser user ident db =
     (let currentUserRole = map_option au_role user;
          currentUserId = map_option au_id user
      in if currentUserRole \<noteq> Some ADMIN
         then (Inl (ApiError 403 ''Access denied. Admin only feature.''), db)
         else if Some ident = currentUserId
         then (Inl (ApiError 400 ''Cannot delete your own account''), db)
         else (case find (\<lambda>u. u_id u = ident) (users db) of
                 None \<Rightarrow> (Inl (ApiError 404 ''User not found''), db)
               | Some existingUser \<Rightarrow>
                   (let issuesCount = length (filter (\<lambda>i. i_createdById i = ident) (issues db))
                    in if issuesCount > 0
                       then (Inr ''User account deactivated successfully (user has created issues)'',
                             db\<lparr>users := map (\<lambda>u. if u_id u = ident
                                                    then u\<lparr>u_isActive := False\<rparr> else u) (users db)\<rparr>)
                       else (case user_hard_delete ident db of
                               None \<Rightarrow> (Inl internal_error, db)
                             | Some db' \<Rightarrow> (Inr ''User deleted successfully'', db')))))"

section \<open>Category administration\<close>

text \<open>
  \<^verbatim>\<open>deleteCategory\<close> of \<^verbatim>\<open>category.controller.ts\<close>: the category is looked up
  among the active ones, the issues that refer to it are counted, and the category and
  its subcategories are marked inactive.
\<close>

definition deleteCategory :: "string \<Rightarrow> Db \<Rightarrow> (ApiError + string) \<times> Db" where
  "deleteCategory ident db =
     (case find (\<lambda>c. c_id c = ident \<and> c_isActive c) (categories db) of
        None \<Rightarrow> (Inl (ApiError 404 ''Category not found''), db)
      | Some existingCategory \<Rightarrow>
          (let issuesCount = length (filter (\<lambda>i. i_categoryId i = ident) (issues db))
           in if issuesCount > 0
              then (Inl (ApiError 400 ''Cannot delete category with existing issues''), db)
              else (Inr ''Category deleted successfully'',
                    db\<lparr>categories := map (\<lambda>c. if c_id c = ident
                                                 then c\<lparr>c_isActive := False\<rparr> else c) (categories db),
                       subcategories := map (\<lambda>s. if s_categoryId s = ident
                                                    then s\<lparr>s_isActive := False\<rparr> else s)
                                            (subcategories db)\<rparr>)))"

section \<open>Registration\<close>

text \<open>
  A request body is a JSON object: a map from keys to JavaScript values. \<open>JDate\<close> is a
  \<^verbatim>\<open>Date\<close> object, which a handler can put into the data it hands to the store.
\<close>

datatype js_value = JNull | JBool bool | JNum real | JStr string | JDate int
  | JArr "js_value list" | JObj "(string \<times> js_value) list"

record RegisterRequest =
  rr_email :: string
  rr_username :: string
  rr_password :: string
  rr_firstName :: string
  rr_lastName :: string
  rr_phone :: "string option"

text \<open>
  \<^verbatim>\<open>registerSchema\<close> of the validation middleware; the e-mail syntax check of the
  validation library is the parameter \<open>is_email\<close>. The middleware only checks the
  body; a key the schema does not name (such as \<^verbatim>\<open>role\<close>) stays in the body and does
  not fail the check.
\<close>

definition str_min :: "nat \<Rightarrow> js_value option \<Rightarrow> bool" where
  "str_min n v = (case v of Some (JStr s) \<Rightarrow> n \<le> length s | _ \<Rightarrow> False)"

definition str_optional :: "js_value option \<Rightarrow> bool" where
  "str_optional v = (case v of None \<Rightarrow> True | Some (JStr s) \<Rightarrow> True | _ \<Rightarrow> False)"

definition registerSchema :: "(string \<Rightarrow> bool) \<Rightarrow> (string \<rightharpoonup> js_value) \<Rightarrow> bool" where
  "registerSchema is_email body =
     ((case body ''email'' of Some (JStr s) \<Rightarrow> is_email s | _ \<Rightarrow> False)
      \<and> str_min 3 (body ''username'')
      \<and> str_min 6 (body ''password'')
      \<and> str_min 1 (body ''firstName'')
      \<and> str_min 1 (body ''lastName'')
      \<and> str_optional (body ''phone''))"

text \<open>
  The destructuring \<^verbatim>\<open>const { email, username, password, firstName, lastName, phone }:
  RegisterRequest = req.body\<close> of a body that passed the schema.
\<close>

definition str_of :: "js_value option \<Rightarrow> string" where
  "str_of v = (case v of Some (JStr s) \<Rightarrow> s | _ \<Rightarrow> [])"

definition opt_str_of :: "js_value option \<Rightarrow> string option" where
  "opt_str_of v = (case v of Some (JStr s) \<Rightarrow> Some s | _ \<Rightarrow> None)"

definition register_request :: "(string \<rightharpoonup> js_value) \<Rightarrow> RegisterRequest" where
  "register_request body =
     \<lparr>rr_email = str_of (body ''email''), rr_username = str_of (body ''username''),
      rr_password = str_of (body ''password''), rr_firstName = str_of (body ''firstName''),
      rr_lastName = str_of (body ''lastName''), rr_phone = opt_str_of (body ''phone'')\<rparr>"

text \<open>
  \<^verbatim>\<open>register\<close> of \<^verbatim>\<open>auth.controller.ts\<close>. \<open>hashPassword\<close> and
  \<open>generateToken\<close> are the helpers of \<^verbatim>\<open>utils/auth\<close>, \<open>newId\<close> is the identifier
  the store gives the new row and \<open>now\<close> the instant of its creation. The created row
  takes \<^verbatim>\<open>isActive\<close> from the column default \<^verbatim>\<open>true\<close>. The answer carries the
  token and the user without the password (here: the row with the password blanked).
\<close>

definition register ::
  "(string \<Rightarrow> string) \<Rightarrow> (string \<Rightarrow> string \<Rightarrow> UserRole \<Rightarrow> string) \<Rightarrow> string \<Rightarrow> int
     \<Rightarrow> RegisterRequest \<Rightarrow> Db \<Rightarrow> (ApiError + User \<times> string) \<times> Db" where
  "register hashPassword generateToken newId now r db =
     (case find (\<lambda>u. u_email u = rr_email r \<or> u_username u = rr_username r) (users db) of
        Some existingUser \<Rightarrow>
          (Inl (ApiError 400 (if u_email existingUser = rr_email r
                               then ''Email already registered''
                               else ''Username already taken'')), db)
      | None \<Rightarrow>
          (let hashedPassword = hashPassword (rr_password r);
               user = \<lparr>u_id = newId, u_email = rr_email r, u_username = rr_username r,
                  u_password = hashedPassword, u_firstName = rr_firstName r,
                  u_lastName = rr_lastName r, u_phone = rr_phone r, u_role = USER,
                  u_isActive = True, u_createdAt = now\<rparr>
           in if list_ex (\<lambda>u. u_id u = newId) (users db)
              then (Inl internal_error, db)
              else (let token = generateToken (u_id user) (u_email user) (u_role user)
                    in (Inr (user\<lparr>u_password := []\<rparr>, token),
                        db\<lparr>users := users db @ [user]\<rparr>))))"

text \<open>The route \<^verbatim>\<open>POST /api/auth/register\<close>: validation, then the handler.\<close>

definition post_register ::
  "(string \<Rightarrow> bool) \<Rightarrow> (string \<Rightarrow> string) \<Rightarrow> (string \<Rightarrow> string \<Rightarrow> UserRole \<Rightarrow> string)
     \<Rightarrow> string \<Rightarrow> int \<Rightarrow> (string \<rightharpoonup> js_value) \<Rightarrow> Db \<Rightarrow> (ApiError + User \<times> string) \<times> Db" where
  "post_register is_email hashPassword generateToken newId now body db =
     (if registerSchema is_email body
      then register hashPassword generateToken newId now (register_request body) db
      else (Inl (ApiError 400 ''Validation failed''), db))"

section \<open>Issue listing\<close>

text \<open>
  The ids of the authenticated requester as the handlers read them:
  \<^verbatim>\<open>if (!userId || !userRole)\<close> answers 401; an empty id is falsy, a role never is.
\<close>

definition credentials :: "AuthUser option \<Rightarrow> (string \<times> UserRole) option" where
  "credentials user =
     (case user of
        None \<Rightarrow> None
      | Some u \<Rightarrow> if au_id u = [] then None else Some (au_id u, au_role u))"

definition status_name :: "IssueStatus \<Rightarrow> string" where
  "status_name s =
     (case s of PENDING \<Rightarrow> ''PENDING'' | IN_PROGRESS \<Rightarrow> ''IN_PROGRESS''
      | COMPLETED \<Rightarrow> ''COMPLETED'' | REJECTED \<Rightarrow> ''REJECTED'' | CANCELLED \<Rightarrow> ''CANCELLED'')"

definition priority_name :: "IssuePriority \<Rightarrow> string" where
  "priority_name p =
     (case p of LOW \<Rightarrow> ''LOW'' | MEDIUM \<Rightarrow> ''MEDIUM'' | HIGH \<Rightarrow> ''HIGH''
      | EMERGENCY \<Rightarrow> ''EMERGENCY'')"

definition status_of_name :: "string \<Rightarrow> IssueStatus option" where
  "status_of_name s =
     (if s = ''PENDING'' then Some PENDING
      else if s = ''IN_PROGRESS'' then Some IN_PROGRESS
      else if s = ''COMPLETED'' then Some COMPLETED
      else if s = ''REJECTED'' then Some REJECTED
      else if s = ''CANCELLED'' then Some CANCELLED
      else None)"

definition priority_of_name :: "string \<Rightarrow> IssuePriority option" where
  "priority_of_name s =
     (if s = ''LOW'' then Some LOW
      else if s = ''MEDIUM'' then Some MEDIUM
      else if s = ''HIGH'' then Some HIGH
      else if s = ''EMERGENCY'' then Some EMERGENCY
      else None)"

text \<open>
  Case-insensitive substring search (\<^verbatim>\<open>contains\<close> with \<^verbatim>\<open>mode: 'insensitive'\<close>): the
  store matches the text against the pattern made of the search text between two
  \<^verbatim>\<open>%\<close>. In a pattern \<^verbatim>\<open>%\<close> stands for any run of characters and \<^verbatim>\<open>_\<close> for any one
  character, also where they come from the search text, and a backslash makes the
  character after it literal. The case folding is that of the ASCII letters (the store
  folds the letters outside ASCII too, which the byte strings of the model do not show).
\<close>

definition to_lower :: "char \<Rightarrow> char" where
  "to_lower c =
     (case map_of (zip ''ABCDEFGHIJKLMNOPQRSTUVWXYZ'' ''abcdefghijklmnopqrstuvwxyz'') c of
        Some l \<Rightarrow> l
      | None \<Rightarrow> c)"

fun like_match :: "string \<Rightarrow> string \<Rightarrow> bool" where
  "like_match [] t = (t = [])"
| "like_match (p # ps) t =
     (if p = CHR ''%''
      then (like_match ps t \<or> (case t of [] \<Rightarrow> False | c # cs \<Rightarrow> like_match (p # ps) cs))
      else if p = CHR ''_''
      then (case t of [] \<Rightarrow> False | c # cs \<Rightarrow> like_match ps cs)
      else if p = CHR 0x5C
      then (case ps of
              [] \<Rightarrow> False
            | q # qs \<Rightarrow> (case t of [] \<Rightarrow> False | c # cs \<Rightarrow> q = c \<and> like_match qs cs))
      else (case t of [] \<Rightarrow> False | c # cs \<Rightarrow> p = c \<and> like_match ps cs))"

definition contains_insensitive :: "string \<Rightarrow> string \<Rightarrow> bool" where
  "contains_insensitive hay needle =
     like_match (map to_lower (''%'' @ needle @ ''%'')) (map to_lower hay)"

text \<open>
  What \<^verbatim>\<open>new Date(s)\<close> gives for a non-empty query string \<open>s\<close>: an instant, or the
  invalid date, which the store refuses.
\<close>

datatype js_date = InvalidDate | DateAt int

text \<open>
  A status or priority parameter of a query: one string or, when the query repeats the
  parameter, an array of strings.
\<close>

datatype qparam = QSingle string | QMany "string list"

text \<open>Truthiness of the parameter (an array is truthy), and \<^verbatim>\<open>Array.isArray(x) ? x : [x]\<close>.\<close>

definition qparam_truthy :: "qparam option \<Rightarrow> bool" where
  "qparam_truthy v =
     (case v of None \<Rightarrow> False | Some (QSingle s) \<Rightarrow> s \<noteq> [] | Some (QMany xs) \<Rightarrow> True)"

definition qparam_list :: "qparam option \<Rightarrow> string list" where
  "qparam_list v = (case v of None \<Rightarrow> [] | Some (QSingle s) \<Rightarrow> [s] | Some (QMany xs) \<Rightarrow> xs)"

text \<open>\<^verbatim>\<open>x && x.length > 0\<close>, for a string as for an array.\<close>

definition qparam_nonempty :: "qparam option \<Rightarrow> bool" where
  "qparam_nonempty v =
     (case v of None \<Rightarrow> False | Some (QSingle s) \<Rightarrow> length s > 0
      | Some (QMany xs) \<Rightarrow> length xs > 0)"

text \<open>
  \<^verbatim>\<open>FilterOptions\<close>: the query of \<^verbatim>\<open>GET /api/issues\<close>, a field being \<open>None\<close>
  when the query does not have it. The interface declares status and priority as arrays;
  a query that names the parameter once hands the handler a string. The two dates are
  held as \<^verbatim>\<open>new Date\<close> reads them, an empty string counting as absent (both are falsy
  for the handler); page and limit are the numbers \<^verbatim>\<open>Number\<close> reads.
\<close>

record FilterOptions =
  f_status :: "qparam option"
  f_priority :: "qparam option"
  f_categoryId :: "string option"
  f_subcategoryId :: "string option"
  f_assignedToId :: "string option"
  f_createdById :: "string option"
  f_dateFrom :: "js_date option"
  f_dateTo :: "js_date option"
  f_isEmergency :: "string option"
  f_search :: "string option"
  f_page :: "int option"
  f_limit :: "int option"

text \<open>
  The \<^verbatim>\<open>where\<close> object handed to the store. Its keys are conjoined; the key
  \<^verbatim>\<open>OR\<close> holds a list of alternatives, one of which has to hold; the keys
  \<^verbatim>\<open>status\<close> and \<^verbatim>\<open>priority\<close> hold the value given for \<^verbatim>\<open>in\<close>.
\<close>

datatype where_cond =
    AssignedToIdIs "string option"
  | CreatedByIdIs string
  | TitleContains string
  | DescriptionContains string
  | AddressContains string
  | ReferenceNumberContains string

record Where =
  w_createdById :: "string option"
  w_OR :: "where_cond list option"
  w_status :: "qparam option"
  w_priority :: "qparam option"
  w_categoryId :: "string option"
  w_subcategoryId :: "string option"
  w_assignedToId :: "string option"
  w_createdAt :: "(js_date option \<times> js_date option) option"
  w_isEmergency :: "bool option"

definition empty_where :: Where where
  "empty_where = \<lparr>w_createdById = None, w_OR = None, w_status = None, w_priority = None,
     w_categoryId = None, w_subcategoryId = None, w_assignedToId = None, w_createdAt = None,
     w_isEmergency = None\<rparr>"

definition truthy_str :: "string option \<Rightarrow> bool" where
  "truthy_str v = (case v of None \<Rightarrow> False | Some s \<Rightarrow> s \<noteq> [])"

definition is_staff :: "UserRole \<Rightarrow> bool" where
  "is_staff r = (r = ADMIN \<or> r = SUPERVISOR \<or> r = OFFICE)"

text \<open>
  The construction of the \<^verbatim>\<open>where\<close> object in \<^verbatim>\<open>getIssues\<close>: one function for
  each \<^verbatim>\<open>if\<close> statement of the handler, applied in the order of the source.
\<close>

definition where_role :: "string \<Rightarrow> UserRole \<Rightarrow> Where \<Rightarrow> Where" where
  "where_role userId userRole w =
     (if userRole = USER then w\<lparr>w_createdById := Some userId\<rparr>
      else if userRole = SUPERVISOR
      then w\<lparr>w_OR := Some [AssignedToIdIs (Some userId), AssignedToIdIs None,
                             CreatedByIdIs userId]\<rparr>
      else w)"

definition where_status :: "qparam option \<Rightarrow> Where \<Rightarrow> Where" where
  "where_status status w = (if qparam_nonempty status then w\<lparr>w_status := status\<rparr> else w)"

definition where_priority :: "qparam option \<Rightarrow> Where \<Rightarrow> Where" where
  "where_priority priority w =
     (if qparam_nonempty priority then w\<lparr>w_priority := priority\<rparr> else w)"

definition where_categoryId :: "string option \<Rightarrow> Where \<Rightarrow> Where" where
  "where_categoryId categoryId w =
     (if truthy_str categoryId then w\<lparr>w_categoryId := categoryId\<rparr> else w)"

definition where_subcategoryId :: "string option \<Rightarrow> Where \<Rightarrow> Where" where
  "where_subcategoryId subcategoryId w =
     (if truthy_str subcategoryId then w\<lparr>w_subcategoryId := subcategoryId\<rparr> else w)"

definition where_assignedToId :: "UserRole \<Rightarrow> string option \<Rightarrow> Where \<Rightarrow> Where" where
  "where_assignedToId userRole assignedToId w =
     (if truthy_str assignedToId \<and> is_staff userRole
      then w\<lparr>w_assignedToId := assignedToId\<rparr> else w)"

definition where_createdById :: "UserRole \<Rightarrow> string option \<Rightarrow> Where \<Rightarrow> Where" where
  "where_createdById userRole createdById w =
     (if truthy_str createdById \<and> is_staff userRole
      then w\<lparr>w_createdById := createdById\<rparr> else w)"

definition where_dates :: "js_date option \<Rightarrow> js_date option \<Rightarrow> Where \<Rightarrow> Where" where
  "where_dates dateFrom dateTo w =
     (if dateFrom \<noteq> None \<or> dateTo \<noteq> None
      then w\<lparr>w_createdAt := Some (dateFrom, dateTo)\<rparr> else w)"

definition where_isEmergency :: "string option \<Rightarrow> Where \<Rightarrow> Where" where
  "where_isEmergency isEmergency w =
     (case isEmergency of
        Some e \<Rightarrow> w\<lparr>w_isEmergency := Some (e = ''true'')\<rparr>
      | None \<Rightarrow> w)"

text \<open>
  The search assigns the key \<^verbatim>\<open>OR\<close>, which the SUPERVISOR branch of the role-based
  filtering has assigned before.
\<close>

definition where_search :: "string option \<Rightarrow> Where \<Rightarrow> Where" where
  "where_search search w =
     (case search of
        Some s \<Rightarrow>
          if s \<noteq> []
          then w\<lparr>w_OR := Some [TitleContains s, DescriptionContains s,
                                 AddressContains s, ReferenceNumberContains s]\<rparr>
          else w
      | None \<Rightarrow> w)"

definition getIssues_where :: "string \<Rightarrow> UserRole \<Rightarrow> FilterOptions \<Rightarrow> Where" where
  "getIssues_where userId userRole q =
     where_search (f_search q)
       (where_isEmergency (f_isEmergency q)
         (where_dates (f_dateFrom q) (f_dateTo q)
           (where_createdById userRole (f_createdById q)
             (where_assignedToId userRole (f_assignedToId q)
               (where_subcategoryId (f_subcategoryId q)
                 (where_categoryId (f_categoryId q)
                   (where_priority (f_priority q)
                     (where_status (f_status q)
                       (where_role userId userRole empty_where)))))))))"

text \<open>
  The store's reading of a \<^verbatim>\<open>where\<close> object. A value of \<^verbatim>\<open>in\<close> that is a string
  and not a list, a status or priority name outside the enumeration, and an invalid
  date make the query fail.
\<close>

definition cond_matches :: "where_cond \<Rightarrow> Issue \<Rightarrow> bool" where
  "cond_matches c i =
     (case c of
        AssignedToIdIs a \<Rightarrow> i_assignedToId i = a
      | CreatedByIdIs u \<Rightarrow> i_createdById i = u
      | TitleContains s \<Rightarrow> contains_insensitive (i_title i) s
      | DescriptionContains s \<Rightarrow> contains_insensitive (i_description i) s
      | AddressContains s \<Rightarrow> contains_insensitive (i_address i) s
      | ReferenceNumberContains s \<Rightarrow> contains_insensitive (i_referenceNumber i) s)"

definition date_valid :: "js_date option \<Rightarrow> bool" where
  "date_valid d = (d \<noteq> Some InvalidDate)"

definition where_valid :: "Where \<Rightarrow> bool" where
  "where_valid w =
     ((case w_status w of
         None \<Rightarrow> True
       | Some (QSingle s) \<Rightarrow> False
       | Some (QMany st) \<Rightarrow> list_all (\<lambda>s. status_of_name s \<noteq> None) st)
      \<and> (case w_priority w of
            None \<Rightarrow> True
          | Some (QSingle s) \<Rightarrow> False
          | Some (QMany pr) \<Rightarrow> list_all (\<lambda>s. priority_of_name s \<noteq> None) pr)
      \<and> (case w_createdAt w of None \<Rightarrow> True | Some (a, b) \<Rightarrow> date_valid a \<and> date_valid b))"

definition gte_ok :: "js_date option \<Rightarrow> int \<Rightarrow> bool" where
  "gte_ok d t = (case d of Some (DateAt a) \<Rightarrow> a \<le> t | _ \<Rightarrow> True)"

definition lte_ok :: "js_date option \<Rightarrow> int \<Rightarrow> bool" where
  "lte_ok d t = (case d of Some (DateAt b) \<Rightarrow> t \<le> b | _ \<Rightarrow> True)"

definition where_matches :: "Where \<Rightarrow> Issue \<Rightarrow> bool" where
  "where_matches w i =
     ((case w_createdById w of None \<Rightarrow> True | Some u \<Rightarrow> i_createdById i = u)
      \<and> (case w_OR w of None \<Rightarrow> True | Some cs \<Rightarrow> list_ex (\<lambda>c. cond_matches c i) cs)
      \<and> (case w_status w of None \<Rightarrow> True
          | Some st \<Rightarrow> status_name (i_status i) \<in> set (qparam_list (Some st)))
      \<and> (case w_priority w of None \<Rightarrow> True
          | Some pr \<Rightarrow> priority_name (i_priority i) \<in> set (qparam_list (Some pr)))
      \<and> (case w_categoryId w of None \<Rightarrow> True | Some c \<Rightarrow> i_categoryId i = c)
      \<and> (case w_subcategoryId w of None \<Rightarrow> True | Some s \<Rightarrow> i_subcategoryId i = Some s)
      \<and> (case w_assignedToId w of None \<Rightarrow> True | Some a \<Rightarrow> i_assignedToId i = Some a)
      \<and> (case w_createdAt w of None \<Rightarrow> True
          | Some (a, b) \<Rightarrow> gte_ok a (i_createdAt i) \<and> lte_ok b (i_createdAt i))
      \<and> (case w_isEmergency w of None \<Rightarrow> True | Some e \<Rightarrow> i_isEmergency i = e))"

text \<open>
  \<^verbatim>\<open>orderBy: [{isEmergency: 'desc'}, {createdAt: 'desc'}]\<close>, rows that agree on both
  coming in the order in which the store scans the table, for which the list of rows
  stands, then \<^verbatim>\<open>skip\<close> and \<^verbatim>\<open>take\<close>. The store refuses a negative \<^verbatim>\<open>skip\<close>; a
  negative \<^verbatim>\<open>take\<close> counts from the end of the ordered rows; it refuses a number
  outside its 64-bit integers.
\<close>

definition order_issues :: "Issue list \<Rightarrow> Issue list" where
  "order_issues xs =
     sort_key (\<lambda>i. \<not> i_isEmergency i) (sort_key (\<lambda>i. - i_createdAt i) xs)"

definition store_int :: "int \<Rightarrow> bool" where
  "store_int k = (- 9223372036854775808 \<le> k \<and> k \<le> 9223372036854775807)"

definition paginate :: "int \<Rightarrow> int \<Rightarrow> 'a list \<Rightarrow> 'a list option" where
  "paginate skip tk xs =
     (if skip < 0 \<or> \<not> store_int skip \<or> \<not> store_int tk then None
      else if 0 \<le> tk then Some (take (nat tk) (drop (nat skip) xs))
      else Some (rev (take (nat (- tk)) (drop (nat skip) (rev xs)))))"

record Pagination =
  pg_page :: int
  pg_limit :: int
  pg_total :: int
  pg_pages :: "int option"

text \<open>
  \<^verbatim>\<open>getIssues\<close> of \<^verbatim>\<open>issue.controller.ts\<close>. \<^verbatim>\<open>Math.ceil(total / limit)\<close> is no
  number when the limit is 0 (\<open>None\<close>).
\<close>

definition getIssues ::
  "AuthUser option \<Rightarrow> FilterOptions \<Rightarrow> Db \<Rightarrow> ApiError + Issue list \<times> Pagination" where
  "getIssues user q db =
     (case credentials user of
        None \<Rightarrow> Inl (ApiError 401 ''Authentication required'')
      | Some (userId, userRole) \<Rightarrow>
          (let page = (case f_page q of None \<Rightarrow> 1 | Some p \<Rightarrow> p);
               limit = (case f_limit q of None \<Rightarrow> 20 | Some l \<Rightarrow> l);
               skip = (page - 1) * limit;
               wh = getIssues_where userId userRole q
           in if \<not> where_valid wh then Inl internal_error
              else (let total = int (length (filter (where_matches wh) (issues db)))
                    in case paginate skip limit (order_issues (filter (where_matches wh) (issues db))) of
                         None \<Rightarrow> Inl internal_error
                       | Some found \<Rightarrow>
                           Inr (found,
                                \<lparr>pg_page = page, pg_limit = limit, pg_total = total,
                                 pg_pages = (if limit = 0 then None
                                             else Some (- ((- total) div limit)))\<rparr>))))"

text \<open>
  The role-based visibility rule of the listing for a SUPERVISOR: the issue is assigned
  to the requester, or unassigned, or created by the requester.
\<close>

definition supervisor_visible :: "string \<Rightarrow> Issue \<Rightarrow> bool" where
  "supervisor_visible userId i =
     (i_assignedToId i = Some userId \<or> i_assignedToId i = None \<or> i_createdById i = userId)"

section \<open>Issue creation and update\<close>

text \<open>
  \<^verbatim>\<open>CreateIssueRequest\<close>: the body of \<^verbatim>\<open>POST /api/issues\<close> as the handler
  destructures it, after the validation middleware has admitted it.
\<close>

record CreateIssueRequest =
  cr_title :: string
  cr_description :: string
  cr_address :: string
  cr_latitude :: "real option"
  cr_longitude :: "real option"
  cr_categoryId :: string
  cr_subcategoryId :: "string option"
  cr_priority :: "IssuePriority option"
  cr_isEmergency :: "bool option"

text \<open>
  The store's \<^verbatim>\<open>issue.create\<close>: the row takes the column defaults (status PENDING, no
  completion date, no assignee) and is refused when its id or its reference number is
  taken or when a row it refers to (category, subcategory, creator) does not exist.
\<close>

definition issue_create :: "Issue \<Rightarrow> Db \<Rightarrow> Db option" where
  "issue_create i db =
     (if list_ex (\<lambda>j. i_id j = i_id i \<or> i_referenceNumber j = i_referenceNumber i) (issues db)
         \<or> \<not> list_ex (\<lambda>c. c_id c = i_categoryId i) (categories db)
         \<or> \<not> list_ex (\<lambda>u. u_id u = i_createdById i) (users db)
         \<or> (case i_subcategoryId i of
               None \<Rightarrow> False
             | Some sid \<Rightarrow> \<not> list_ex (\<lambda>s. s_id s = sid) (subcategories db))
      then None
      else Some (db\<lparr>issues := issues db @ [i]\<rparr>))"

text \<open>
  \<^verbatim>\<open>createIssue\<close> of \<^verbatim>\<open>issue.controller.ts\<close>. \<open>referenceNumber\<close> is what
  \<^verbatim>\<open>generateReferenceNumber()\<close> of \<^verbatim>\<open>utils/auth\<close> returns, \<open>newId\<close> the id the
  store gives the row, \<open>now\<close> the instant of creation.
\<close>

definition createIssue ::
  "AuthUser option \<Rightarrow> CreateIssueRequest \<Rightarrow> string \<Rightarrow> string \<Rightarrow> int \<Rightarrow> Db
     \<Rightarrow> (ApiError + Issue) \<times> Db" where
  "createIssue user r referenceNumber newId now db =
     (case map_option au_id user of
        None \<Rightarrow> (Inl (ApiError 401 ''Authentication required''), db)
      | Some userId \<Rightarrow>
          if userId = [] then (Inl (ApiError 401 ''Authentication required''), db)
          else
            (let priority = (case cr_priority r of None \<Rightarrow> MEDIUM | Some p \<Rightarrow> p);
                 isEmergency = (case cr_isEmergency r of None \<Rightarrow> False | Some e \<Rightarrow> e)
             in case find (\<lambda>c. c_id c = cr_categoryId r \<and> c_isActive c) (categories db) of
                  None \<Rightarrow> (Inl (ApiError 400 ''Invalid category''), db)
                | Some category \<Rightarrow>
                    if truthy_str (cr_subcategoryId r)
                       \<and> find (\<lambda>s. Some (s_id s) = cr_subcategoryId r
                                   \<and> s_categoryId s = cr_categoryId r \<and> s_isActive s)
                            (subcategories db) = None
                    then (Inl (ApiError 400 ''Invalid subcategory''), db)
                    else
                      (let issue = \<lparr>i_id = newId, i_title = cr_title r,
                             i_description = cr_description r, i_address = cr_address r,
                             i_latitude = cr_latitude r, i_longitude = cr_longitude r,
                             i_status = PENDING,
                             i_priority = (if isEmergency then EMERGENCY else priority),
                             i_isEmergency = isEmergency, i_referenceNumber = referenceNumber,
                             i_completedAt = None, i_createdAt = now,
                             i_categoryId = cr_categoryId r,
                             i_subcategoryId = cr_subcategoryId r,
                             i_createdById = userId, i_assignedToId = None\<rparr>
                       in case issue_create issue db of
                            None \<Rightarrow> (Inl internal_error, db)
                          | Some db' \<Rightarrow> (Inr issue, db'))))"

text \<open>
  \<^verbatim>\<open>updateIssueSchema\<close> of the validation middleware: every key is optional, and a key
  that is present has a value of its type. The cuid syntax check of the validation
  library is the parameter \<open>is_cuid\<close>.
\<close>

definition optional :: "(js_value \<Rightarrow> bool) \<Rightarrow> js_value option \<Rightarrow> bool" where
  "optional P v = (case v of None \<Rightarrow> True | Some x \<Rightarrow> P x)"

definition z_string_min :: "nat \<Rightarrow> js_value \<Rightarrow> bool" where
  "z_string_min n x = (case x of JStr s \<Rightarrow> n \<le> length s | _ \<Rightarrow> False)"

definition z_number :: "js_value \<Rightarrow> bool" where
  "z_number x = (case x of JNum r \<Rightarrow> True | _ \<Rightarrow> False)"

definition z_boolean :: "js_value \<Rightarrow> bool" where
  "z_boolean x = (case x of JBool b \<Rightarrow> True | _ \<Rightarrow> False)"

definition z_cuid :: "(string \<Rightarrow> bool) \<Rightarrow> js_value \<Rightarrow> bool" where
  "z_cuid is_cuid x = (case x of JStr s \<Rightarrow> is_cuid s | _ \<Rightarrow> False)"

definition z_enum :: "string list \<Rightarrow> js_value \<Rightarrow> bool" where
  "z_enum names x = (case x of JStr s \<Rightarrow> s \<in> set names | _ \<Rightarrow> False)"

definition updateIssueSchema :: "(string \<Rightarrow> bool) \<Rightarrow> (string \<rightharpoonup> js_value) \<Rightarrow> bool" where
  "updateIssueSchema is_cuid body =
     (optional (z_string_min 1) (body ''title'')
      \<and> optional (z_string_min 10) (body ''description'')
      \<and> optional (z_string_min 1) (body ''address'')
      \<and> optional z_number (body ''latitude'')
      \<and> optional z_number (body ''longitude'')
      \<and> optional (z_cuid is_cuid) (body ''categoryId'')
      \<and> optional (z_cuid is_cuid) (body ''subcategoryId'')
      \<and> optional (z_enum [''PENDING'', ''IN_PROGRESS'', ''COMPLETED'', ''REJECTED'', ''CANCELLED''])
            (body ''status'')
      \<and> optional (z_enum [''LOW'', ''MEDIUM'', ''HIGH'', ''EMERGENCY'']) (body ''priority'')
      \<and> optional z_boolean (body ''isEmergency'')
      \<and> optional (z_cuid is_cuid) (body ''assignedToId''))"

text \<open>
  The store's \<^verbatim>\<open>issue.update\<close>: each column named in the data takes the value given
  for it. A value that is not of the column's type, a status or priority outside the
  enumeration, and a reference to a row that does not exist make the update fail
  (\<open>None\<close>); a nullable column takes \<^verbatim>\<open>null\<close>.
\<close>

definition set_text ::
  "js_value option \<Rightarrow> (string \<Rightarrow> Issue \<Rightarrow> Issue) \<Rightarrow> Issue \<Rightarrow> Issue option" where
  "set_text v upd i =
     (case v of None \<Rightarrow> Some i | Some (JStr s) \<Rightarrow> Some (upd s i) | Some _ \<Rightarrow> None)"

definition set_float ::
  "js_value option \<Rightarrow> (real option \<Rightarrow> Issue \<Rightarrow> Issue) \<Rightarrow> Issue \<Rightarrow> Issue option" where
  "set_float v upd i =
     (case v of None \<Rightarrow> Some i | Some (JNum r) \<Rightarrow> Some (upd (Some r) i)
      | Some JNull \<Rightarrow> Some (upd None i) | Some _ \<Rightarrow> None)"

definition set_bool ::
  "js_value option \<Rightarrow> (bool \<Rightarrow> Issue \<Rightarrow> Issue) \<Rightarrow> Issue \<Rightarrow> Issue option" where
  "set_bool v upd i =
     (case v of None \<Rightarrow> Some i | Some (JBool b) \<Rightarrow> Some (upd b i) | Some _ \<Rightarrow> None)"

definition set_date ::
  "js_value option \<Rightarrow> (int option \<Rightarrow> Issue \<Rightarrow> Issue) \<Rightarrow> Issue \<Rightarrow> Issue option" where
  "set_date v upd i =
     (case v of None \<Rightarrow> Some i | Some (JDate t) \<Rightarrow> Some (upd (Some t) i)
      | Some JNull \<Rightarrow> Some (upd None i) | Some _ \<Rightarrow> None)"

definition set_enum ::
  "js_value option \<Rightarrow> (string \<Rightarrow> 'e option) \<Rightarrow> ('e \<Rightarrow> Issue \<Rightarrow> Issue) \<Rightarrow> Issue
     \<Rightarrow> Issue option" where
  "set_enum v of_name upd i =
     (case v of
        None \<Rightarrow> Some i
      | Some (JStr s) \<Rightarrow> (case of_name s of None \<Rightarrow> None | Some e \<Rightarrow> Some (upd e i))
      | Some _ \<Rightarrow> None)"

definition set_ref ::
  "js_value option \<Rightarrow> (string \<Rightarrow> bool) \<Rightarrow> (string \<Rightarrow> Issue \<Rightarrow> Issue) \<Rightarrow> Issue
     \<Rightarrow> Issue option" where
  "set_ref v exists_row upd i =
     (case v of
        None \<Rightarrow> Some i
      | Some (JStr s) \<Rightarrow> if exists_row s then Some (upd s i) else None
      | Some _ \<Rightarrow> None)"

definition set_ref_nullable ::
  "js_value option \<Rightarrow> (string \<Rightarrow> bool) \<Rightarrow> (string option \<Rightarrow> Issue \<Rightarrow> Issue) \<Rightarrow> Issue
     \<Rightarrow> Issue option" where
  "set_ref_nullable v exists_row upd i =
     (case v of
        None \<Rightarrow> Some i
      | Some (JStr s) \<Rightarrow> if exists_row s then Some (upd (Some s) i) else None
      | Some JNull \<Rightarrow> Some (upd None i)
      | Some _ \<Rightarrow> None)"

definition issue_data :: "Db \<Rightarrow> (string \<rightharpoonup> js_value) \<Rightarrow> Issue \<Rightarrow> Issue option" where
  "issue_data db d i =
     set_text (d ''title'') (\<lambda>v j. j\<lparr>i_title := v\<rparr>) i
     \<bind> set_text (d ''description'') (\<lambda>v j. j\<lparr>i_description := v\<rparr>)
     \<bind> set_text (d ''address'') (\<lambda>v j. j\<lparr>i_address := v\<rparr>)
     \<bind> set_float (d ''latitude'') (\<lambda>v j. j\<lparr>i_latitude := v\<rparr>)
     \<bind> set_float (d ''longitude'') (\<lambda>v j. j\<lparr>i_longitude := v\<rparr>)
     \<bind> set_enum (d ''status'') status_of_name (\<lambda>v j. j\<lparr>i_status := v\<rparr>)
     \<bind> set_enum (d ''priority'') priority_of_name (\<lambda>v j. j\<lparr>i_priority := v\<rparr>)
     \<bind> set_ref_nullable (d ''assignedToId'') (\<lambda>s. list_ex (\<lambda>u. u_id u = s) (users db))
           (\<lambda>v j. j\<lparr>i_assignedToId := v\<rparr>)
     \<bind> set_ref (d ''categoryId'') (\<lambda>s. list_ex (\<lambda>c. c_id c = s) (categories db))
           (\<lambda>v j. j\<lparr>i_categoryId := v\<rparr>)
     \<bind> set_ref_nullable (d ''subcategoryId'')
           (\<lambda>s. list_ex (\<lambda>x. s_id x = s) (subcategories db))
           (\<lambda>v j. j\<lparr>i_subcategoryId := v\<rparr>)
     \<bind> set_bool (d ''isEmergency'') (\<lambda>v j. j\<lparr>i_isEmergency := v\<rparr>)
     \<bind> set_date (d ''completedAt'') (\<lambda>v j. j\<lparr>i_completedAt := v\<rparr>)"

text \<open>
  \<^verbatim>\<open>updateIssue\<close> of \<^verbatim>\<open>issue.controller.ts\<close>: the permission check gives the list
  of allowed fields, the keys of the body outside the list are dropped, the completion
  date is added to the data when the filtered data sets the status to COMPLETED and
  the current status is another one, and the store updates the row.
\<close>

definition update_permission :: "string \<Rightarrow> UserRole \<Rightarrow> Issue \<Rightarrow> string list option" where
  "update_permission userId userRole currentIssue =
     (if userRole = USER \<and> i_createdById currentIssue = userId
      then Some [''title'', ''description'', ''address'', ''latitude'', ''longitude'']
      else if userRole = SUPERVISOR \<or> userRole = OFFICE \<or> userRole = ADMIN
      then Some [''title'', ''description'', ''address'', ''latitude'', ''longitude'',
                 ''status'', ''priority'', ''assignedToId'', ''categoryId'',
                 ''subcategoryId'', ''isEmergency'']
      else None)"

definition filterUpdateData ::
  "string list \<Rightarrow> (string \<rightharpoonup> js_value) \<Rightarrow> (string \<rightharpoonup> js_value)" where
  "filterUpdateData allowedFields updateData =
     (\<lambda>key. if key \<in> set allowedFields then updateData key else None)"

definition stamp_completedAt ::
  "int \<Rightarrow> Issue \<Rightarrow> (string \<rightharpoonup> js_value) \<Rightarrow> (string \<rightharpoonup> js_value)" where
  "stamp_completedAt now currentIssue filteredUpdateData =
     (if filteredUpdateData ''status'' = Some (JStr ''COMPLETED'')
         \<and> i_status currentIssue \<noteq> COMPLETED
      then filteredUpdateData(''completedAt'' \<mapsto> JDate now)
      else filteredUpdateData)"

definition updateIssue ::
  "AuthUser option \<Rightarrow> string \<Rightarrow> (string \<rightharpoonup> js_value) \<Rightarrow> int \<Rightarrow> Db
     \<Rightarrow> (ApiError + Issue) \<times> Db" where
  "updateIssue user ident updateData now db =
     (case credentials user of
        None \<Rightarrow> (Inl (ApiError 401 ''Authentication required''), db)
      | Some (userId, userRole) \<Rightarrow>
          (case find (\<lambda>i. i_id i = ident) (issues db) of
             None \<Rightarrow> (Inl (ApiError 404 ''Issue not found''), db)
           | Some currentIssue \<Rightarrow>
               (case update_permission userId userRole currentIssue of
                  None \<Rightarrow> (Inl (ApiError 403 ''Access denied''), db)
                | Some allowedFields \<Rightarrow>
                    (let filteredUpdateData =
                           stamp_completedAt now currentIssue
                             (filterUpdateData allowedFields updateData)
                     in case issue_data db filteredUpdateData currentIssue of
                          None \<Rightarrow> (Inl internal_error, db)
                        | Some updatedIssue \<Rightarrow>
                            (Inr updatedIssue,
                             db\<lparr>issues := map (\<lambda>i. if i_id i = ident then updatedIssue else i)
                                                (issues db)\<rparr>)))))"

text \<open>The route \<^verbatim>\<open>PUT /api/issues/:id\<close>: validation, then the handler.\<close>

definition put_issue ::
  "(string \<Rightarrow> bool) \<Rightarrow> AuthUser option \<Rightarrow> string \<Rightarrow> (string \<rightharpoonup> js_value) \<Rightarrow> int \<Rightarrow> Db
     \<Rightarrow> (ApiError + Issue) \<times> Db" where
  "put_issue is_cuid user ident body now db =
     (if updateIssueSchema is_cuid body then updateIssue user ident body now db
      else (Inl (ApiError 400 ''Validation failed''), db))"

section \<open>Spreadsheet export and import\<close>

text \<open>The query of \<^verbatim>\<open>GET /api/excel/export\<close>.\<close>

record ExportQuery =
  e_status :: "qparam option"
  e_priority :: "qparam option"
  e_categoryId :: "string option"
  e_subcategoryId :: "string option"
  e_dateFrom :: "js_date option"
  e_dateTo :: "js_date option"
  e_isEmergency :: "string option"

definition export_status :: "qparam option \<Rightarrow> Where \<Rightarrow> Where" where
  "export_status status w =
     (if qparam_truthy status then w\<lparr>w_status := Some (QMany (qparam_list status))\<rparr> else w)"

definition export_priority :: "qparam option \<Rightarrow> Where \<Rightarrow> Where" where
  "export_priority priority w =
     (if qparam_truthy priority
      then w\<lparr>w_priority := Some (QMany (qparam_list priority))\<rparr> else w)"

text \<open>
  The \<^verbatim>\<open>where\<close> object of \<^verbatim>\<open>exportIssues\<close>: it starts empty and takes the filters of
  the query; the handler puts nothing into it that depends on the requester.
\<close>

definition exportIssues_where :: "ExportQuery \<Rightarrow> Where" where
  "exportIssues_where q =
     where_isEmergency (e_isEmergency q)
       (where_dates (e_dateFrom q) (e_dateTo q)
         (where_subcategoryId (e_subcategoryId q)
           (where_categoryId (e_categoryId q)
             (export_priority (e_priority q)
               (export_status (e_status q) empty_where)))))"

text \<open>
  The document: one row for each issue found, in the order found (the later creation
  time first, issues of one creation time in the order in which the store scans the
  table, for which the list of rows stands), and the summary block
  (total, count per status in order of first appearance, emergency count). The cells of
  a row are read off the issue; the labels and colours are presentation and are left out.
\<close>

record ExportDocument =
  x_rows :: "Issue list"
  x_total :: nat
  x_statusCounts :: "(IssueStatus \<times> nat) list"
  x_emergencyCount :: nat

fun count_status :: "(IssueStatus \<times> nat) list \<Rightarrow> IssueStatus \<Rightarrow> (IssueStatus \<times> nat) list" where
  "count_status [] s = [(s, 1)]"
| "count_status ((t, n) # acc) s =
     (if t = s then (t, n + 1) # acc else (t, n) # count_status acc s)"

definition exportIssues :: "AuthUser option \<Rightarrow> ExportQuery \<Rightarrow> Db \<Rightarrow> ApiError + ExportDocument" where
  "exportIssues user q db =
     (case credentials user of
        None \<Rightarrow> Inl (ApiError 401 ''Authentication required'')
      | Some (userId, userRole) \<Rightarrow>
          if userRole = USER then Inl (ApiError 403 ''Access denied. Staff only feature.'')
          else
            (let wh = exportIssues_where q
             in if \<not> where_valid wh then Inl internal_error
                else (let found = sort_key (\<lambda>i. - i_createdAt i)
                                    (filter (where_matches wh) (issues db))
                      in Inr \<lparr>x_rows = found, x_total = length found,
                               x_statusCounts = foldl count_status [] (map i_status found),
                               x_emergencyCount = length (filter i_isEmergency found)\<rparr>)))"

text \<open>
  The filter set of an export, in the words of the specification: the conjunction of
  the filters the caller supplies (status set, priority set, category, subcategory, date
  range, emergency flag). A parameter that is absent or empty supplies no filter.
\<close>

definition satisfies_export_filters :: "ExportQuery \<Rightarrow> Issue \<Rightarrow> bool" where
  "satisfies_export_filters q i =
     ((if qparam_truthy (e_status q)
       then status_name (i_status i) \<in> set (qparam_list (e_status q)) else True)
      \<and> (if qparam_truthy (e_priority q)
          then priority_name (i_priority i) \<in> set (qparam_list (e_priority q)) else True)
      \<and> (if truthy_str (e_categoryId q) then Some (i_categoryId i) = e_categoryId q else True)
      \<and> (if truthy_str (e_subcategoryId q) then i_subcategoryId i = e_subcategoryId q else True)
      \<and> (case e_dateFrom q of Some (DateAt a) \<Rightarrow> a \<le> i_createdAt i | _ \<Rightarrow> True)
      \<and> (case e_dateTo q of Some (DateAt b) \<Rightarrow> i_createdAt i \<le> b | _ \<Rightarrow> True)
      \<and> (case e_isEmergency q of None \<Rightarrow> True | Some e \<Rightarrow> i_isEmergency i = (e = ''true'')))"

text \<open>The filter values are well formed: enumeration names and valid dates.\<close>

definition export_query_valid :: "ExportQuery \<Rightarrow> bool" where
  "export_query_valid q =
     ((if qparam_truthy (e_status q)
       then list_all (\<lambda>s. status_of_name s \<noteq> None) (qparam_list (e_status q)) else True)
      \<and> (if qparam_truthy (e_priority q)
          then list_all (\<lambda>s. priority_of_name s \<noteq> None) (qparam_list (e_priority q)) else True)
      \<and> e_dateFrom q \<noteq> Some InvalidDate \<and> e_dateTo q \<noteq> Some InvalidDate)"

text \<open>
  The role-based visibility rule of the specification (section 4.1): a USER sees the
  issues they created, a SUPERVISOR those assigned to them, unassigned or created by
  them, OFFICE and ADMIN all.
\<close>

definition visible :: "UserRole \<Rightarrow> string \<Rightarrow> Issue \<Rightarrow> bool" where
  "visible userRole userId i =
     (case userRole of
        USER \<Rightarrow> i_createdById i = userId
      | SUPERVISOR \<Rightarrow> supervisor_visible userId i
      | OFFICE \<Rightarrow> True
      | ADMIN \<Rightarrow> True)"

text \<open>Decimal numerals, as a template literal prints a number.\<close>

fun show_nat :: "nat \<Rightarrow> string" where
  "show_nat n =
     (if n < 10 then [''0123456789'' ! n]
      else show_nat (n div 10) @ [''0123456789'' ! (n mod 10)])"

declare show_nat.simps [simp del]

definition show_int :: "int \<Rightarrow> string" where
  "show_int k = (if k < 0 then ''-'' @ show_nat (nat (- k)) else show_nat (nat k))"

text \<open>
  The uploaded spreadsheet: no file, a file the reader cannot read, a workbook without
  a first worksheet, or the rows of the first worksheet, the header row first. A row is
  the text of its first four cells.
\<close>

record SheetRow =
  cell1 :: string
  cell2 :: string
  cell3 :: string
  cell4 :: string

datatype upload = NoFile | Unreadable | NoWorksheet | Worksheet "SheetRow list"

record ImportResults =
  successful :: nat
  failed :: nat
  errors :: "string list"

text \<open>
  The issue \<^verbatim>\<open>importIssues\<close> creates for a row: the columns it does not name take
  their defaults. While the row with the given number is processed, \<open>clock\<close> gives
  \<^verbatim>\<open>Date.now()\<close>, which goes into the reference number, \<open>inserted\<close> the instant
  the store takes as the column default of \<^verbatim>\<open>createdAt\<close>, and \<open>newId\<close> the id of the
  new row.
\<close>

definition imported_issue ::
  "string \<Rightarrow> (nat \<Rightarrow> int) \<Rightarrow> (nat \<Rightarrow> int) \<Rightarrow> (nat \<Rightarrow> string) \<Rightarrow> nat \<Rightarrow> SheetRow
     \<Rightarrow> Category \<Rightarrow> Issue" where
  "imported_issue userId clock inserted newId rowNumber row category =
     \<lparr>i_id = newId rowNumber, i_title = cell1 row, i_description = cell2 row,
      i_address = cell3 row, i_latitude = None, i_longitude = None, i_status = PENDING,
      i_priority = MEDIUM, i_isEmergency = False,
      i_referenceNumber = ''GLY-IMP-'' @ show_int (clock rowNumber) @ ''-'' @ show_nat rowNumber,
      i_completedAt = None, i_createdAt = inserted rowNumber, i_categoryId = c_id category,
      i_subcategoryId = None, i_createdById = userId, i_assignedToId = None\<rparr>"

text \<open>
  One pass of the loop body. \<open>message_of\<close> is the message of the error the store
  raises when it refuses a row.
\<close>

definition import_row ::
  "(Issue \<Rightarrow> string) \<Rightarrow> string \<Rightarrow> (nat \<Rightarrow> int) \<Rightarrow> (nat \<Rightarrow> int) \<Rightarrow> (nat \<Rightarrow> string) \<Rightarrow> nat
     \<Rightarrow> SheetRow \<Rightarrow> ImportResults \<times> Db \<Rightarrow> ImportResults \<times> Db" where
  "import_row message_of userId clock inserted newId rowNumber row st =
     (let importResults = fst st; db = snd st;
          title = cell1 row; description = cell2 row; address = cell3 row;
          categoryName = cell4 row
      in if title = [] \<or> description = [] \<or> address = [] \<or> categoryName = []
         then (importResults\<lparr>failed := failed importResults + 1,
                 errors := errors importResults
                   @ [''Row '' @ show_nat rowNumber @ '': Missing required fields'']\<rparr>, db)
         else (case find (\<lambda>c. c_name c = categoryName \<and> c_isActive c) (categories db) of
                 None \<Rightarrow>
                   (importResults\<lparr>failed := failed importResults + 1,
                      errors := errors importResults
                        @ [''Row '' @ show_nat rowNumber @ '': Category '' @ [CHR 0x27]
                             @ categoryName @ [CHR 0x27] @ '' not found'']\<rparr>, db)
               | Some category \<Rightarrow>
                   (let issue = imported_issue userId clock inserted newId rowNumber row category
                    in case issue_create issue db of
                         Some db' \<Rightarrow>
                           (importResults\<lparr>successful := successful importResults + 1\<rparr>, db')
                       | None \<Rightarrow>
                           (importResults\<lparr>failed := failed importResults + 1,
                              errors := errors importResults
                                @ [''Row '' @ show_nat rowNumber @ '': '' @ message_of issue]\<rparr>,
                            db))))"

text \<open>A row in which a required cell is blank.\<close>

definition missing_required :: "SheetRow \<Rightarrow> bool" where
  "missing_required row = (cell1 row = [] \<or> cell2 row = [] \<or> cell3 row = [] \<or> cell4 row = [])"

text \<open>
  The loop \<^verbatim>\<open>for (rowNumber = 2; rowNumber <= worksheet.rowCount; rowNumber++)\<close> over
  the rows that follow the header.
\<close>

fun import_rows ::
  "(Issue \<Rightarrow> string) \<Rightarrow> string \<Rightarrow> (nat \<Rightarrow> int) \<Rightarrow> (nat \<Rightarrow> int) \<Rightarrow> (nat \<Rightarrow> string) \<Rightarrow> nat
     \<Rightarrow> SheetRow list \<Rightarrow> ImportResults \<times> Db \<Rightarrow> ImportResults \<times> Db" where
  "import_rows message_of userId clock inserted newId rowNumber [] st = st"
| "import_rows message_of userId clock inserted newId rowNumber (row # rows) st =
     import_rows message_of userId clock inserted newId (rowNumber + 1) rows
       (import_row message_of userId clock inserted newId rowNumber row st)"

definition importIssues ::
  "(Issue \<Rightarrow> string) \<Rightarrow> (nat \<Rightarrow> int) \<Rightarrow> (nat \<Rightarrow> int) \<Rightarrow> (nat \<Rightarrow> string) \<Rightarrow> AuthUser option
     \<Rightarrow> upload \<Rightarrow> Db \<Rightarrow> (ApiError + ImportResults) \<times> Db" where
  "importIssues message_of clock inserted newId user file db =
     (case credentials user of
        None \<Rightarrow> (Inl (ApiError 401 ''Authentication required''), db)
      | Some (userId, userRole) \<Rightarrow>
          if userRole \<noteq> ADMIN
          then (Inl (ApiError 403 ''Access denied. Admin only feature.''), db)
          else (case file of
                  NoFile \<Rightarrow> (Inl (ApiError 400 ''No Excel file uploaded''), db)
                | Unreadable \<Rightarrow> (Inl internal_error, db)
                | NoWorksheet \<Rightarrow> (Inl (ApiError 400 ''Invalid Excel file format''), db)
                | Worksheet sheet \<Rightarrow>
                    (let st = import_rows message_of userId clock inserted newId 2 (drop 1 sheet)
                                (\<lparr>successful = 0, failed = 0, errors = []\<rparr>, db)
                     in (Inr (fst st), snd st))))"

text \<open>
  The outcome of one row, read off the loop body: the detail of the message when the
  row fails (a blank required cell, a category name that resolves to no active
  category, a refusal of the store), \<open>None\<close> when the row is imported; and the
  messages the row adds to the report, each beginning with the row number.
\<close>

definition row_detail ::
  "(Issue \<Rightarrow> string) \<Rightarrow> string \<Rightarrow> (nat \<Rightarrow> int) \<Rightarrow> (nat \<Rightarrow> int) \<Rightarrow> (nat \<Rightarrow> string) \<Rightarrow> nat
     \<Rightarrow> SheetRow \<Rightarrow> Db \<Rightarrow> string option" where
  "row_detail message_of userId clock inserted newId rowNumber row db =
     (if missing_required row then Some ''Missing required fields''
      else (case find (\<lambda>c. c_name c = cell4 row \<and> c_isActive c) (categories db) of
              None \<Rightarrow> Some (''Category '' @ [CHR 0x27] @ cell4 row @ [CHR 0x27] @ '' not found'')
            | Some category \<Rightarrow>
                (case issue_create
                        (imported_issue userId clock inserted newId rowNumber row category) db of
                   Some db' \<Rightarrow> None
                 | None \<Rightarrow>
                     Some (message_of
                             (imported_issue userId clock inserted newId rowNumber row category)))))"

definition row_messages :: "nat \<Rightarrow> string option \<Rightarrow> string list" where
  "row_messages rowNumber detail =
     (case detail of None \<Rightarrow> [] | Some d \<Rightarrow> [''Row '' @ show_nat rowNumber @ '': '' @ d])"

section \<open>Photo upload\<close>

text \<open>
  A file of the batch, as the upload middleware hands it to the handler after writing
  it to the upload directory.
\<close>

record UploadedFile =
  uf_filename :: string
  uf_originalname :: string
  uf_mimetype :: string
  uf_size :: int
  uf_path :: string

text \<open>
  The upload directory is the list of the paths that exist. \<^verbatim>\<open>fs.unlinkSync\<close> removes
  a path; on a path that does not exist it throws, which the handler catches and logs,
  and the directory is as before. The loop \<^verbatim>\<open>files.forEach\<close> unlinks each file of the
  batch.
\<close>

definition unlinkSync :: "string \<Rightarrow> string list \<Rightarrow> string list option" where
  "unlinkSync path dir = (if path \<in> set dir then Some (removeAll path dir) else None)"

fun unlink_files :: "UploadedFile list \<Rightarrow> string list \<Rightarrow> string list" where
  "unlink_files [] dir = dir"
| "unlink_files (file # files) dir =
     unlink_files files (case unlinkSync (uf_path file) dir of Some dir' \<Rightarrow> dir' | None \<Rightarrow> dir)"

text \<open>Truthiness of a JavaScript value (\<open>None\<close> is \<^verbatim>\<open>undefined\<close>).\<close>

definition truthy :: "js_value option \<Rightarrow> bool" where
  "truthy v =
     (case v of
        None \<Rightarrow> False
      | Some JNull \<Rightarrow> False
      | Some (JBool b) \<Rightarrow> b
      | Some (JNum r) \<Rightarrow> r \<noteq> 0
      | Some (JStr s) \<Rightarrow> s \<noteq> []
      | Some _ \<Rightarrow> True)"

text \<open>
  The store's \<^verbatim>\<open>photo.createMany\<close>: all rows or none; it is refused when an id is
  taken, when a size does not fit the 32-bit integer column, or when the issue or the
  uploader of a row does not exist.
\<close>

definition photo_createMany :: "Photo list \<Rightarrow> Db \<Rightarrow> Db option" where
  "photo_createMany ps db =
     (if distinct (map p_id ps)
         \<and> list_all (\<lambda>p. - 2147483648 \<le> p_size p \<and> p_size p \<le> 2147483647
                        \<and> \<not> list_ex (\<lambda>x. p_id x = p_id p) (photos db)
                        \<and> list_ex (\<lambda>i. i_id i = p_issueId p) (issues db)
                        \<and> list_ex (\<lambda>u. u_id u = p_uploadedById p) (users db)) ps
      then Some (db\<lparr>photos := photos db @ ps\<rparr>)
      else None)"

text \<open>
  \<^verbatim>\<open>uploadPhotos\<close> of \<^verbatim>\<open>photo.controller.ts\<close>, on the store and the upload
  directory. \<open>maxPhotos\<close> is the value of
  \<^verbatim>\<open>parseInt(process.env.MAX_PHOTOS_PER_ISSUE || '5')\<close>, \<open>None\<close> when it is not a
  number (a comparison with it is then false); \<open>files\<close> is \<^verbatim>\<open>req.files\<close> and
  \<open>description\<close> is \<^verbatim>\<open>req.body.description\<close>; \<open>newId\<close> gives the id of the k-th
  created row. A failure of the store is caught: the files of the batch are unlinked
  and the answer is 500.
\<close>

definition photo_rows ::
  "(nat \<Rightarrow> string) \<Rightarrow> int \<Rightarrow> string \<Rightarrow> string \<Rightarrow> string option \<Rightarrow> UploadedFile list \<Rightarrow> Photo list" where
  "photo_rows newId now issueId userId description files =
     map (\<lambda>(k, file).
            \<lparr>p_id = newId k, p_filename = uf_filename file,
             p_originalName = uf_originalname file, p_mimeType = uf_mimetype file,
             p_size = uf_size file, p_path = uf_path file, p_description = description,
             p_issueId = issueId, p_uploadedById = userId, p_createdAt = now\<rparr>)
         (zip [0 ..< length files] files)"

definition uploadPhotos ::
  "int option \<Rightarrow> (nat \<Rightarrow> string) \<Rightarrow> int \<Rightarrow> AuthUser option \<Rightarrow> string
     \<Rightarrow> UploadedFile list option \<Rightarrow> js_value option \<Rightarrow> Db \<times> string list
     \<Rightarrow> (ApiError + Photo list) \<times> Db \<times> string list" where
  "uploadPhotos maxPhotos newId now user issueId files description st =
     (let db = fst st; dir = snd st
      in case credentials user of
           None \<Rightarrow> (Inl (ApiError 401 ''Authentication required''), db, dir)
         | Some (userId, userRole) \<Rightarrow>
             (case find (\<lambda>i. i_id i = issueId) (issues db) of
                None \<Rightarrow> (Inl (ApiError 404 ''Issue not found''), db, dir)
              | Some issue \<Rightarrow>
                  if userRole = USER \<and> i_createdById issue \<noteq> userId
                  then (Inl (ApiError 403 ''Access denied''), db, dir)
                  else (case files of
                          None \<Rightarrow> (Inl (ApiError 400 ''No files uploaded''), db, dir)
                        | Some batch \<Rightarrow>
                            if length batch = 0
                            then (Inl (ApiError 400 ''No files uploaded''), db, dir)
                            else
                              (let currentPhotoCount =
                                     int (length (filter (\<lambda>p. p_issueId p = issueId) (photos db)))
                               in if (case maxPhotos of
                                        None \<Rightarrow> False
                                      | Some m \<Rightarrow> currentPhotoCount + int (length batch) > m)
                                  then (Inl (ApiError 400
                                              (''Maximum '' @ (case maxPhotos of None \<Rightarrow> ''NaN''
                                                               | Some m \<Rightarrow> show_int m)
                                                 @ '' photos allowed per issue. Current: ''
                                                 @ show_int currentPhotoCount)),
                                        db, unlink_files batch dir)
                                  else
                                    (case (if truthy description
                                           then (case description of
                                                   Some (JStr s) \<Rightarrow> Some (Some s)
                                                 | _ \<Rightarrow> None)
                                           else Some None) of
                                       None \<Rightarrow> (Inl internal_error, db, unlink_files batch dir)
                                     | Some desc \<Rightarrow>
                                         (case photo_createMany
                                                 (photo_rows newId now issueId userId desc batch) db of
                                            None \<Rightarrow>
                                              (Inl internal_error, db, unlink_files batch dir)
                                          | Some db' \<Rightarrow>
                                              (Inr (take (length batch)
                                                      (sort_key (\<lambda>p. - p_createdAt p)
                                                         (filter (\<lambda>p. p_issueId p = issueId
                                                                      \<and> p_uploadedById p = userId)
                                                            (photos db')))),
                                               db', dir)))))))"

section \<open>The row after a successful update\<close>

text \<open>
  The value a column has after \<^verbatim>\<open>issue.update\<close> has accepted the data: the value
  given for the column, or the old one when the data does not name the column.
\<close>

definition text_val :: "js_value option \<Rightarrow> string \<Rightarrow> string" where
  "text_val v old = (case v of Some (JStr s) \<Rightarrow> s | _ \<Rightarrow> old)"

definition float_val :: "js_value option \<Rightarrow> real option \<Rightarrow> real option" where
  "float_val v old = (case v of Some (JNum r) \<Rightarrow> Some r | Some JNull \<Rightarrow> None | _ \<Rightarrow> old)"

definition bool_val :: "js_value option \<Rightarrow> bool \<Rightarrow> bool" where
  "bool_val v old = (case v of Some (JBool b) \<Rightarrow> b | _ \<Rightarrow> old)"

definition date_val :: "js_value option \<Rightarrow> int option \<Rightarrow> int option" where
  "date_val v old = (case v of Some (JDate t) \<Rightarrow> Some t | Some JNull \<Rightarrow> None | _ \<Rightarrow> old)"

definition enum_val :: "(string \<Rightarrow> 'e option) \<Rightarrow> js_value option \<Rightarrow> 'e \<Rightarrow> 'e" where
  "enum_val of_name v old =
     (case v of Some (JStr s) \<Rightarrow> (case of_name s of Some e \<Rightarrow> e | None \<Rightarrow> old) | _ \<Rightarrow> old)"

definition ref_val :: "js_value option \<Rightarrow> string option \<Rightarrow> string option" where
  "ref_val v old = (case v of Some (JStr s) \<Rightarrow> Some s | Some JNull \<Rightarrow> None | _ \<Rightarrow> old)"

section \<open>Sample data\<close>

definition admin1 :: User where
  "admin1 = \<lparr>u_id = ''a1'', u_email = ''admin@glyfada.gr'', u_username = ''admin'',
     u_password = ''h1'', u_firstName = ''Ada'', u_lastName = ''Min'', u_phone = None,
     u_role = ADMIN, u_isActive = True, u_createdAt = 0\<rparr>"

definition db0 :: Db where
  "db0 = \<lparr>users = [admin1], categories = [], subcategories = [], issues = [],
     photos = [], comments = []\<rparr>"

definition cat_roads :: Category where
  "cat_roads = \<lparr>c_id = ''c1'', c_name = ''Roads'', c_nameEn = Some ''Road Works'',
     c_description = None, c_color = ''#FF6B35'', c_icon = Some ''road'', c_isActive = True\<rparr>"

definition cat_lights :: Category where
  "cat_lights = \<lparr>c_id = ''c2'', c_name = ''Lighting'', c_nameEn = None,
     c_description = None, c_color = ''#F7931E'', c_icon = None, c_isActive = True\<rparr>"

definition sub_pothole :: Subcategory where
  "sub_pothole = \<lparr>s_id = ''s1'', s_name = ''Pothole'', s_estimatedDays = Some 7,
     s_isActive = True, s_categoryId = ''c1''\<rparr>"

definition sub_lamp :: Subcategory where
  "sub_lamp = \<lparr>s_id = ''s2'', s_name = ''Lamp'', s_estimatedDays = None,
     s_isActive = True, s_categoryId = ''c2''\<rparr>"

definition db_cats :: Db where
  "db_cats = \<lparr>users = [admin1], categories = [cat_roads, cat_lights],
     subcategories = [sub_pothole, sub_lamp], issues = [], photos = [], comments = []\<rparr>"

definition body_register :: "string \<rightharpoonup> js_value" where
  "body_register = [''email'' \<mapsto> JStr ''eve@example.org'', ''username'' \<mapsto> JStr ''eve'',
     ''password'' \<mapsto> JStr ''secret1'', ''firstName'' \<mapsto> JStr ''Eve'',
     ''lastName'' \<mapsto> JStr ''Doe'', ''role'' \<mapsto> JStr ''ADMIN'']"

definition citizen1 :: User where
  "citizen1 = \<lparr>u_id = ''u1'', u_email = ''kate@example.org'', u_username = ''kate'',
     u_password = ''h2'', u_firstName = ''Kate'', u_lastName = ''Doe'', u_phone = None,
     u_role = USER, u_isActive = True, u_createdAt = 1\<rparr>"

definition citizen2 :: User where
  "citizen2 = \<lparr>u_id = ''u2'', u_email = ''liam@example.org'', u_username = ''liam'',
     u_password = ''h3'', u_firstName = ''Liam'', u_lastName = ''Roe'', u_phone = None,
     u_role = USER, u_isActive = True, u_createdAt = 2\<rparr>"

definition supervisor1 :: User where
  "supervisor1 = \<lparr>u_id = ''s1'', u_email = ''sue@glyfada.gr'', u_username = ''sue'',
     u_password = ''h4'', u_firstName = ''Sue'', u_lastName = ''Per'', u_phone = None,
     u_role = SUPERVISOR, u_isActive = True, u_createdAt = 3\<rparr>"

definition supervisor2 :: User where
  "supervisor2 = \<lparr>u_id = ''s2'', u_email = ''sam@glyfada.gr'', u_username = ''sam'',
     u_password = ''h5'', u_firstName = ''Sam'', u_lastName = ''Vis'', u_phone = None,
     u_role = SUPERVISOR, u_isActive = True, u_createdAt = 4\<rparr>"

definition issue_lamp :: Issue where
  "issue_lamp = \<lparr>i_id = ''i1'', i_title = ''Broken lamp'',
     i_description = ''The street lamp is out'', i_address = ''Main St 5'',
     i_latitude = None, i_longitude = None, i_status = IN_PROGRESS, i_priority = MEDIUM,
     i_isEmergency = False, i_referenceNumber = ''GLY-2024-002'', i_completedAt = None,
     i_createdAt = 100, i_categoryId = ''c2'', i_subcategoryId = Some ''s2'',
     i_createdById = ''u1'', i_assignedToId = Some ''s2''\<rparr>"

definition issue_hole :: Issue where
  "issue_hole = \<lparr>i_id = ''i2'', i_title = ''Large pothole'',
     i_description = ''A pothole endangers vehicles'', i_address = ''Shore Ave 125'',
     i_latitude = None, i_longitude = None, i_status = PENDING, i_priority = HIGH,
     i_isEmergency = False, i_referenceNumber = ''GLY-2024-001'', i_completedAt = None,
     i_createdAt = 50, i_categoryId = ''c1'', i_subcategoryId = Some ''s1'',
     i_createdById = ''u1'', i_assignedToId = None\<rparr>"

definition db_issues :: Db where
  "db_issues = \<lparr>users = [admin1, citizen1, citizen2, supervisor1, supervisor2],
     categories = [cat_roads, cat_lights], subcategories = [sub_pothole, sub_lamp],
     issues = [issue_hole, issue_lamp], photos = [], comments = []\<rparr>"

definition no_filters :: FilterOptions where
  "no_filters = \<lparr>f_status = None, f_priority = None, f_categoryId = None,
     f_subcategoryId = None, f_assignedToId = None, f_createdById = None, f_dateFrom = None,
     f_dateTo = None, f_isEmergency = None, f_search = None, f_page = None, f_limit = None\<rparr>"

definition issue_done :: Issue where
  "issue_done = \<lparr>i_id = ''i3'', i_title = ''Fallen tree'',
     i_description = ''A tree blocks the pavement'', i_address = ''Park Rd 9'',
     i_latitude = None, i_longitude = None, i_status = COMPLETED, i_priority = HIGH,
     i_isEmergency = False, i_referenceNumber = ''GLY-2024-003'', i_completedAt = Some 300,
     i_createdAt = 200, i_categoryId = ''c1'', i_subcategoryId = None,
     i_createdById = ''u2'', i_assignedToId = Some ''s1''\<rparr>"

definition db_done :: Db where
  "db_done = \<lparr>users = [admin1, citizen1, citizen2, supervisor1, supervisor2],
     categories = [cat_roads, cat_lights], subcategories = [sub_pothole, sub_lamp],
     issues = [issue_done], photos = [], comments = []\<rparr>"

definition body_citizen :: "string \<rightharpoonup> js_value" where
  "body_citizen = [''title'' \<mapsto> JStr ''Deep pothole'', ''status'' \<mapsto> JStr ''COMPLETED'',
     ''priority'' \<mapsto> JStr ''EMERGENCY'', ''isEmergency'' \<mapsto> JBool True,
     ''assignedToId'' \<mapsto> JStr ''cjld2cjxh0000qzrmn831i7rn'']"

definition no_export_filters :: ExportQuery where
  "no_export_filters = \<lparr>e_status = None, e_priority = None, e_categoryId = None,
     e_subcategoryId = None, e_dateFrom = None, e_dateTo = None, e_isEmergency = None\<rparr>"

definition row_header :: SheetRow where
  "row_header = \<lparr>cell1 = ''Title'', cell2 = ''Description'', cell3 = ''Address'',
     cell4 = ''Category''\<rparr>"

definition row_pothole :: SheetRow where
  "row_pothole = \<lparr>cell1 = ''Pothole'', cell2 = ''Deep pothole on the road'',
     cell3 = ''Shore Ave 1'', cell4 = ''Roads''\<rparr>"

definition row_dark :: SheetRow where
  "row_dark = \<lparr>cell1 = ''Dark street'', cell2 = ''Three lamps are out'', cell3 = [],
     cell4 = ''Lighting''\<rparr>"

definition row_flicker :: SheetRow where
  "row_flicker = \<lparr>cell1 = ''Lamp'', cell2 = ''The lamp flickers at night'',
     cell3 = ''Main St 5'', cell4 = ''Lighting''\<rparr>"

definition clock0 :: "nat \<Rightarrow> int" where
  "clock0 n = 1700000000000 + int n"

definition inserted0 :: "nat \<Rightarrow> int" where
  "inserted0 n = 1700000000005 + int n"

definition newId0 :: "nat \<Rightarrow> string" where
  "newId0 n = ''imp'' @ show_nat n"

definition message0 :: "Issue \<Rightarrow> string" where
  "message0 i = ''Unique constraint failed''"

definition db_imp1 :: Db where
  "db_imp1 = db_cats\<lparr>issues := [imported_issue ''a1'' clock0 inserted0 newId0 2 row_pothole cat_roads]\<rparr>"

definition db_imp2 :: Db where
  "db_imp2 = db_cats\<lparr>issues := [imported_issue ''a1'' clock0 inserted0 newId0 2 row_pothole cat_roads,
                                  imported_issue ''a1'' clock0 inserted0 newId0 4 row_flicker cat_lights]\<rparr>"

definition photo_old :: Photo where
  "photo_old = \<lparr>p_id = ''p1'', p_filename = ''old.jpg'', p_originalName = ''hole.jpg'',
     p_mimeType = ''image/jpeg'', p_size = 1000, p_path = ''uploads/old.jpg'',
     p_description = None, p_issueId = ''i2'', p_uploadedById = ''u1'', p_createdAt = 60\<rparr>"

definition db_photos :: Db where
  "db_photos = db_issues\<lparr>photos := [photo_old]\<rparr>"

definition file_a :: UploadedFile where
  "file_a = \<lparr>uf_filename = ''a.jpg'', uf_originalname = ''front.jpg'',
     uf_mimetype = ''image/jpeg'', uf_size = 2000, uf_path = ''uploads/a.jpg''\<rparr>"

definition file_b :: UploadedFile where
  "file_b = \<lparr>uf_filename = ''b.jpg'', uf_originalname = ''side.jpg'',
     uf_mimetype = ''image/jpeg'', uf_size = 3000, uf_path = ''uploads/b.jpg''\<rparr>"

definition dir_photos :: "string list" where
  "dir_photos = [''uploads/old.jpg'', ''uploads/a.jpg'', ''uploads/b.jpg'']"

definition row_park :: SheetRow where
  "row_park = \<lparr>cell1 = ''Bench'', cell2 = ''The bench is broken in two'', cell3 = ''Park Rd 2'',
     cell4 = ''Parks''\<rparr>"

section \<open>Properties\<close>

text \<open>
  C10. A deleteUser request of an administrator whose own id is the target id fails with
  status 400, and the store is left as it was: no user is removed or deactivated.
\<close>

theorem deleteUser_own_account_rejected:
  assumes "au_role u = ADMIN" and "au_id u = ident"
  shows "deleteUser (Some u) ident db = (Inl (ApiError 400 ''Cannot delete your own account''), db)"
  using assms by (simp add: deleteUser_def)

theorem deleteUser_own_account_rejected_witness:
  "au_role \<lparr>au_id = ''a1'', au_role = ADMIN\<rparr> = ADMIN
   \<and> au_id \<lparr>au_id = ''a1'', au_role = ADMIN\<rparr> = ''a1''
   \<and> deleteUser (Some \<lparr>au_id = ''a1'', au_role = ADMIN\<rparr>) ''a1'' db0
       = (Inl (ApiError 400 ''Cannot delete your own account''), db0)
   \<and> users db0 = [admin1]"
  using deleteUser_own_account_rejected [of "\<lparr>au_id = ''a1'', au_role = ADMIN\<rparr>" "''a1''" db0]
  by (simp add: db0_def)

text \<open>
  C8. Deleting an active category to which at least one issue refers fails with status
  400 and leaves the store (the category and its subcategories) as it was. Deleting an
  active category to which no issue refers succeeds, removes no row, and sets
  \<^verbatim>\<open>isActive\<close> to false on the category and on each of its subcategories, every other
  row staying as it was.
\<close>

theorem deleteCategory_conflict_or_soft_delete:
  assumes "find (\<lambda>c. c_id c = ident \<and> c_isActive c) (categories db) = Some cat"
  shows "(list_ex (\<lambda>i. i_categoryId i = ident) (issues db) \<longrightarrow>
            deleteCategory ident db
              = (Inl (ApiError 400 ''Cannot delete category with existing issues''), db))
       \<and> (\<not> list_ex (\<lambda>i. i_categoryId i = ident) (issues db) \<longrightarrow>
            (\<exists>db'. deleteCategory ident db = (Inr ''Category deleted successfully'', db')
               \<and> length (categories db') = length (categories db)
               \<and> (\<forall>k < length (categories db).
                     categories db' ! k
                       = (if c_id (categories db ! k) = ident
                          then (categories db ! k)\<lparr>c_isActive := False\<rparr>
                          else categories db ! k))
               \<and> length (subcategories db') = length (subcategories db)
               \<and> (\<forall>k < length (subcategories db).
                     subcategories db' ! k
                       = (if s_categoryId (subcategories db ! k) = ident
                          then (subcategories db ! k)\<lparr>s_isActive := False\<rparr>
                          else subcategories db ! k))
               \<and> issues db' = issues db \<and> users db' = users db))"
proof (intro conjI impI)
  assume "list_ex (\<lambda>i. i_categoryId i = ident) (issues db)"
  then have "filter (\<lambda>i. i_categoryId i = ident) (issues db) \<noteq> []"
    by (auto simp: list_ex_iff filter_empty_conv)
  with assms show "deleteCategory ident db
      = (Inl (ApiError 400 ''Cannot delete category with existing issues''), db)"
    by (simp add: deleteCategory_def)
next
  assume "\<not> list_ex (\<lambda>i. i_categoryId i = ident) (issues db)"
  then have "filter (\<lambda>i. i_categoryId i = ident) (issues db) = []"
    by (auto simp: list_ex_iff filter_empty_conv)
  with assms show "\<exists>db'. deleteCategory ident db = (Inr ''Category deleted successfully'', db')
               \<and> length (categories db') = length (categories db)
               \<and> (\<forall>k < length (categories db).
                     categories db' ! k
                       = (if c_id (categories db ! k) = ident
                          then (categories db ! k)\<lparr>c_isActive := False\<rparr>
                          else categories db ! k))
               \<and> length (subcategories db') = length (subcategories db)
               \<and> (\<forall>k < length (subcategories db).
                     subcategories db' ! k
                       = (if s_categoryId (subcategories db ! k) = ident
                          then (subcategories db ! k)\<lparr>s_isActive := False\<rparr>
                          else subcategories db ! k))
               \<and> issues db' = issues db \<and> users db' = users db"
    by (simp add: deleteCategory_def)
qed

theorem deleteCategory_conflict_or_soft_delete_witness:
  "find (\<lambda>c. c_id c = ''c1'' \<and> c_isActive c) (categories db_cats) = Some cat_roads
   \<and> \<not> list_ex (\<lambda>i. i_categoryId i = ''c1'') (issues db_cats)
   \<and> (\<exists>db'. deleteCategory ''c1'' db_cats = (Inr ''Category deleted successfully'', db')
         \<and> categories db' = [cat_roads\<lparr>c_isActive := False\<rparr>, cat_lights]
         \<and> subcategories db' = [sub_pothole\<lparr>s_isActive := False\<rparr>, sub_lamp])
   \<and> find (\<lambda>c. c_id c = ''c1'' \<and> c_isActive c) (categories db_issues) = Some cat_roads
   \<and> list_ex (\<lambda>i. i_categoryId i = ''c1'') (issues db_issues)
   \<and> deleteCategory ''c1'' db_issues
       = (Inl (ApiError 400 ''Cannot delete category with existing issues''), db_issues)"
proof -
  have f: "find (\<lambda>c. c_id c = ''c1'' \<and> c_isActive c) (categories db_cats) = Some cat_roads"
    by (simp add: db_cats_def cat_roads_def)
  have n: "\<not> list_ex (\<lambda>i. i_categoryId i = ''c1'') (issues db_cats)"
    by (simp add: db_cats_def)
  from deleteCategory_conflict_or_soft_delete [OF f] n
  obtain db' where d: "deleteCategory ''c1'' db_cats = (Inr ''Category deleted successfully'', db')"
    by blast
  then have "categories db' = [cat_roads\<lparr>c_isActive := False\<rparr>, cat_lights]
      \<and> subcategories db' = [sub_pothole\<lparr>s_isActive := False\<rparr>, sub_lamp]"
    by (auto simp: deleteCategory_def db_cats_def cat_roads_def cat_lights_def
        sub_pothole_def sub_lamp_def)
  with d have soft: "\<exists>db'. deleteCategory ''c1'' db_cats = (Inr ''Category deleted successfully'', db')
         \<and> categories db' = [cat_roads\<lparr>c_isActive := False\<rparr>, cat_lights]
         \<and> subcategories db' = [sub_pothole\<lparr>s_isActive := False\<rparr>, sub_lamp]"
    by blast
  have g: "find (\<lambda>c. c_id c = ''c1'' \<and> c_isActive c) (categories db_issues) = Some cat_roads"
    by (simp add: db_issues_def cat_roads_def)
  have r: "list_ex (\<lambda>i. i_categoryId i = ''c1'') (issues db_issues)"
    by (simp add: db_issues_def issue_hole_def)
  from deleteCategory_conflict_or_soft_delete [OF g] r
  have "deleteCategory ''c1'' db_issues
      = (Inl (ApiError 400 ''Cannot delete category with existing issues''), db_issues)"
    by blast
  with f n soft g r show ?thesis by blast
qed

text \<open>
  C9. Every successful registration through \<^verbatim>\<open>POST /api/auth/register\<close> stores
  exactly one new user, with role USER and \<^verbatim>\<open>isActive\<close> true, whatever the body holds
  under \<^verbatim>\<open>role\<close> or under any other key the schema does not name; the user of the
  answer has the same role.
\<close>

theorem register_creates_plain_user:
  assumes "post_register is_email hashPassword generateToken newId now body db
             = (Inr (user, token), db')"
  shows "u_role user = USER \<and> u_isActive user
       \<and> (\<exists>stored. users db' = users db @ [stored]
             \<and> u_id stored = u_id user \<and> u_email stored = str_of (body ''email'')
             \<and> u_role stored = USER \<and> u_isActive stored)"
  using assms
  by (auto simp: post_register_def register_def Let_def register_request_def
      split: if_splits option.splits)

theorem register_creates_plain_user_witness:
  "\<exists>user token db'.
     post_register (\<lambda>s. CHR ''@'' \<in> set s) (\<lambda>p. ''#'' @ p) (\<lambda>i e r. ''t-'' @ i) ''u9'' 5
         body_register db0 = (Inr (user, token), db')
     \<and> body_register ''role'' = Some (JStr ''ADMIN'')
     \<and> u_role user = USER \<and> u_isActive user
     \<and> map u_role (users db') = [ADMIN, USER]"
proof -
  obtain r d where e: "post_register (\<lambda>s. CHR ''@'' \<in> set s) (\<lambda>p. ''#'' @ p) (\<lambda>i e r. ''t-'' @ i) ''u9'' 5
         body_register db0 = (r, d)"
    by (cases "post_register (\<lambda>s. CHR ''@'' \<in> set s) (\<lambda>p. ''#'' @ p) (\<lambda>i e r. ''t-'' @ i) ''u9'' 5
         body_register db0") blast
  have v: "registerSchema (\<lambda>s. CHR ''@'' \<in> set s) body_register"
    by (simp add: registerSchema_def body_register_def str_min_def str_optional_def)
  from e v obtain user token where r: "r = Inr (user, token)"
    by (auto simp: post_register_def register_def Let_def db0_def admin1_def
        register_request_def body_register_def str_of_def split: if_splits)
  from register_creates_plain_user [OF e [unfolded r]]
  obtain stored where s: "u_role user = USER" "u_isActive user"
    "users d = users db0 @ [stored]" "u_role stored = USER"
    by blast
  then have "map u_role (users d) = [ADMIN, USER]"
    by (simp add: db0_def admin1_def)
  with e r s show ?thesis
    by (auto simp: body_register_def)
qed

subsection \<open>Listing\<close>

lemma set_paginate: "paginate sk tk xs = Some ys \<Longrightarrow> set ys \<subseteq> set xs"
  by (auto simp: paginate_def split: if_splits dest!: in_set_takeD in_set_dropD)

lemma w_OR_steps:
  "w_OR (where_status a w) = w_OR w" "w_OR (where_priority a w) = w_OR w"
  "w_OR (where_categoryId c w) = w_OR w" "w_OR (where_subcategoryId c w) = w_OR w"
  "w_OR (where_assignedToId r c w) = w_OR w" "w_OR (where_createdById r c w) = w_OR w"
  "w_OR (where_dates d e w) = w_OR w" "w_OR (where_isEmergency c w) = w_OR w"
  by (simp_all add: where_status_def where_priority_def where_categoryId_def
      where_subcategoryId_def where_assignedToId_def where_createdById_def where_dates_def
      where_isEmergency_def split: option.splits)

lemma getIssues_found:
  assumes "getIssues user q db = Inr (found, pg)"
  shows "\<exists>uid role. credentials user = Some (uid, role)
           \<and> set found \<subseteq> {i \<in> set (issues db). where_matches (getIssues_where uid role q) i}"
proof -
  from assms obtain uid role where c: "credentials user = Some (uid, role)"
    by (auto simp: getIssues_def split: option.splits)
  let ?xs = "filter (where_matches (getIssues_where uid role q)) (issues db)"
  from assms c obtain sk tk where "paginate sk tk (order_issues ?xs) = Some found"
    by (auto simp: getIssues_def Let_def split: if_splits option.splits)
  then have "set found \<subseteq> set (order_issues ?xs)" by (rule set_paginate)
  then show ?thesis using c by (auto simp: order_issues_def)
qed

text \<open>
  Without a search text, every issue of a SUPERVISOR's page is assigned to the
  requester, unassigned, or created by the requester.
\<close>

lemma getIssues_supervisor_without_search:
  assumes "credentials user = Some (uid, SUPERVISOR)" and "\<not> truthy_str (f_search q)"
    and "getIssues user q db = Inr (found, pg)"
  shows "list_all (supervisor_visible uid) found"
proof -
  let ?w = "getIssues_where uid SUPERVISOR q"
  have or: "w_OR ?w = Some [AssignedToIdIs (Some uid), AssignedToIdIs None, CreatedByIdIs uid]"
    using assms(2)
    by (simp add: getIssues_where_def w_OR_steps where_search_def where_role_def
        empty_where_def truthy_str_def split: option.splits)
  from getIssues_found [OF assms(3)] assms(1)
  have "set found \<subseteq> {i \<in> set (issues db). where_matches ?w i}" by auto
  moreover have "where_matches ?w i \<Longrightarrow> supervisor_visible uid i" for i
    using or by (auto simp: where_matches_def cond_matches_def supervisor_visible_def)
  ultimately show ?thesis by (auto simp: list_all_iff)
qed

text \<open>
  C1. The claim: every issue of a page listed for a SUPERVISOR is assigned to the
  requester, unassigned, or created by the requester, under any filters, the search
  text included. The handler does not keep it: with the search text \<^verbatim>\<open>LAMP\<close>,
  supervisor \<^verbatim>\<open>s1\<close> is given issue \<^verbatim>\<open>i1\<close>, which citizen \<^verbatim>\<open>u1\<close> created and which
  is assigned to supervisor \<^verbatim>\<open>s2\<close>.
\<close>

theorem getIssues_supervisor_search_leak:
  "getIssues (Some \<lparr>au_id = ''s1'', au_role = SUPERVISOR\<rparr>)
       (no_filters\<lparr>f_search := Some ''LAMP''\<rparr>) db_issues
     = Inr ([issue_lamp], \<lparr>pg_page = 1, pg_limit = 20, pg_total = 1, pg_pages = Some 1\<rparr>)
   \<and> \<not> supervisor_visible ''s1'' issue_lamp"
  by code_simp

subsection \<open>Creation and update\<close>

lemmas setters = set_text_def set_float_def set_bool_def set_date_def set_enum_def set_ref_def
  set_ref_nullable_def

lemmas vals = text_val_def float_val_def bool_val_def date_val_def enum_val_def ref_val_def

lemma set_None [simp]:
  "set_text None ut i = Some i" "set_float None uf i = Some i" "set_bool None ub i = Some i"
  "set_date None ud i = Some i" "set_enum None n ue i = Some i" "set_ref None ex ur i = Some i"
  "set_ref_nullable None ex un i = Some i"
  by (simp_all add: setters)

lemma set_steps:
  "set_text v (\<lambda>v j. j\<lparr>i_title := v\<rparr>) i = Some j \<Longrightarrow> j = i\<lparr>i_title := text_val v (i_title i)\<rparr>"
  "set_text v (\<lambda>v j. j\<lparr>i_description := v\<rparr>) i = Some j
     \<Longrightarrow> j = i\<lparr>i_description := text_val v (i_description i)\<rparr>"
  "set_text v (\<lambda>v j. j\<lparr>i_address := v\<rparr>) i = Some j
     \<Longrightarrow> j = i\<lparr>i_address := text_val v (i_address i)\<rparr>"
  "set_float v (\<lambda>v j. j\<lparr>i_latitude := v\<rparr>) i = Some j
     \<Longrightarrow> j = i\<lparr>i_latitude := float_val v (i_latitude i)\<rparr>"
  "set_float v (\<lambda>v j. j\<lparr>i_longitude := v\<rparr>) i = Some j
     \<Longrightarrow> j = i\<lparr>i_longitude := float_val v (i_longitude i)\<rparr>"
  "set_enum v status_of_name (\<lambda>v j. j\<lparr>i_status := v\<rparr>) i = Some j
     \<Longrightarrow> j = i\<lparr>i_status := enum_val status_of_name v (i_status i)\<rparr>"
  "set_enum v priority_of_name (\<lambda>v j. j\<lparr>i_priority := v\<rparr>) i = Some j
     \<Longrightarrow> j = i\<lparr>i_priority := enum_val priority_of_name v (i_priority i)\<rparr>"
  "set_ref_nullable v ex (\<lambda>v j. j\<lparr>i_assignedToId := v\<rparr>) i = Some j
     \<Longrightarrow> j = i\<lparr>i_assignedToId := ref_val v (i_assignedToId i)\<rparr>"
  "set_ref v ex (\<lambda>v j. j\<lparr>i_categoryId := v\<rparr>) i = Some j
     \<Longrightarrow> j = i\<lparr>i_categoryId := text_val v (i_categoryId i)\<rparr>"
  "set_ref_nullable v ex (\<lambda>v j. j\<lparr>i_subcategoryId := v\<rparr>) i = Some j
     \<Longrightarrow> j = i\<lparr>i_subcategoryId := ref_val v (i_subcategoryId i)\<rparr>"
  "set_bool v (\<lambda>v j. j\<lparr>i_isEmergency := v\<rparr>) i = Some j
     \<Longrightarrow> j = i\<lparr>i_isEmergency := bool_val v (i_isEmergency i)\<rparr>"
  "set_date v (\<lambda>v j. j\<lparr>i_completedAt := v\<rparr>) i = Some j
     \<Longrightarrow> j = i\<lparr>i_completedAt := date_val v (i_completedAt i)\<rparr>"
  by (auto simp: setters vals split: option.splits js_value.splits if_splits)

lemma issue_data_result:
  assumes "issue_data db d i = Some j"
  shows "j = i\<lparr>i_title := text_val (d ''title'') (i_title i),
               i_description := text_val (d ''description'') (i_description i),
               i_address := text_val (d ''address'') (i_address i),
               i_latitude := float_val (d ''latitude'') (i_latitude i),
               i_longitude := float_val (d ''longitude'') (i_longitude i),
               i_status := enum_val status_of_name (d ''status'') (i_status i),
               i_priority := enum_val priority_of_name (d ''priority'') (i_priority i),
               i_assignedToId := ref_val (d ''assignedToId'') (i_assignedToId i),
               i_categoryId := text_val (d ''categoryId'') (i_categoryId i),
               i_subcategoryId := ref_val (d ''subcategoryId'') (i_subcategoryId i),
               i_isEmergency := bool_val (d ''isEmergency'') (i_isEmergency i),
               i_completedAt := date_val (d ''completedAt'') (i_completedAt i)\<rparr>"
  using assms unfolding issue_data_def bind_eq_Some_conv
  by (auto dest!: set_steps)

lemma permission_fields:
  assumes "update_permission userId userRole current = Some allowedFields"
  shows "''completedAt'' \<notin> set allowedFields"
  using assms by (auto simp: update_permission_def split: if_splits)

lemma updateIssue_success:
  assumes "put_issue is_cuid user ident body now db = (Inr updated, db')"
    and "credentials user = Some (userId, userRole)"
    and "find (\<lambda>i. i_id i = ident) (issues db) = Some current"
    and "update_permission userId userRole current = Some allowedFields"
  shows "issue_data db (stamp_completedAt now current (filterUpdateData allowedFields body)) current
           = Some updated
       \<and> db' = db\<lparr>issues := map (\<lambda>i. if i_id i = ident then updated else i) (issues db)\<rparr>"
  using assms
  by (auto simp: put_issue_def updateIssue_def Let_def split: if_splits option.splits)

lemma find_map_replace:
  assumes "find (\<lambda>i. i_id i = ident) xs = Some c" and "i_id u = ident"
  shows "find (\<lambda>i. i_id i = ident) (map (\<lambda>i. if i_id i = ident then u else i) xs) = Some u"
  using assms by (induction xs) (auto split: if_splits)

text \<open>
  C4. For every successful update of an issue through \<^verbatim>\<open>PUT /api/issues/:id\<close>: when
  the honored payload (the body restricted to the fields allowed to the requester) sets
  the status to COMPLETED and the status before was another one, the stored row has
  status COMPLETED and its \<^verbatim>\<open>completedAt\<close> is the current time; in every other case
  \<^verbatim>\<open>completedAt\<close> is left as it was, in particular when the update moves the status
  away from COMPLETED.
\<close>

theorem put_issue_completedAt:
  assumes "put_issue is_cuid user ident body now db = (Inr updated, db')"
    and "credentials user = Some (userId, userRole)"
    and "find (\<lambda>i. i_id i = ident) (issues db) = Some current"
    and "update_permission userId userRole current = Some allowedFields"
  shows "(filterUpdateData allowedFields body ''status'' = Some (JStr ''COMPLETED'')
            \<and> i_status current \<noteq> COMPLETED
          \<longrightarrow> i_status updated = COMPLETED \<and> i_completedAt updated = Some now)
       \<and> (\<not> (filterUpdateData allowedFields body ''status'' = Some (JStr ''COMPLETED'')
               \<and> i_status current \<noteq> COMPLETED)
          \<longrightarrow> i_completedAt updated = i_completedAt current)
       \<and> (i_status current = COMPLETED \<and> i_status updated \<noteq> COMPLETED
          \<longrightarrow> i_completedAt updated = i_completedAt current)
       \<and> find (\<lambda>i. i_id i = ident) (issues db') = Some updated"
proof -
  let ?f = "filterUpdateData allowedFields body"
  let ?d = "stamp_completedAt now current ?f"
  from updateIssue_success [OF assms]
  have r: "issue_data db ?d current = Some updated"
    and d: "db' = db\<lparr>issues := map (\<lambda>i. if i_id i = ident then updated else i) (issues db)\<rparr>"
    by simp_all
  note u = issue_data_result [OF r]
  have nf: "?f ''completedAt'' = None"
    using permission_fields [OF assms(4)] by (simp add: filterUpdateData_def)
  have c: "i_completedAt updated = date_val (?d ''completedAt'') (i_completedAt current)"
    by (subst u) simp
  have s: "i_status updated = enum_val status_of_name (?d ''status'') (i_status current)"
    by (subst u) simp
  have ds: "?d ''status'' = ?f ''status''"
    by (simp add: stamp_completedAt_def)
  have a: "i_completedAt updated = Some now \<and> i_status updated = COMPLETED"
    if "?f ''status'' = Some (JStr ''COMPLETED'')" "i_status current \<noteq> COMPLETED"
    using that c s ds
    by (simp add: stamp_completedAt_def date_val_def enum_val_def status_of_name_def)
  have b: "i_completedAt updated = i_completedAt current"
    if "\<not> (?f ''status'' = Some (JStr ''COMPLETED'') \<and> i_status current \<noteq> COMPLETED)"
    using that c nf by (auto simp: stamp_completedAt_def date_val_def)
  have "i_id current = ident"
    using assms(3) by (auto simp: find_Some_iff)
  then have "i_id updated = ident"
    by (subst u) simp
  from find_map_replace [OF assms(3) this] d
  have f: "find (\<lambda>i. i_id i = ident) (issues db') = Some updated" by simp
  from a b f show ?thesis by blast
qed


theorem put_issue_completedAt_witness:
  "\<exists>updated db' moved db''.
     put_issue (\<lambda>s. True) (Some \<lparr>au_id = ''s1'', au_role = SUPERVISOR\<rparr>) ''i2''
         [''status'' \<mapsto> JStr ''COMPLETED''] 500 db_issues = (Inr updated, db')
     \<and> i_status issue_hole = PENDING \<and> i_completedAt issue_hole = None
     \<and> i_status updated = COMPLETED \<and> i_completedAt updated = Some 500
     \<and> find (\<lambda>i. i_id i = ''i2'') (issues db') = Some updated
     \<and> put_issue (\<lambda>s. True) (Some \<lparr>au_id = ''s1'', au_role = SUPERVISOR\<rparr>) ''i3''
         [''status'' \<mapsto> JStr ''IN_PROGRESS''] 900 db_done = (Inr moved, db'')
     \<and> i_status issue_done = COMPLETED \<and> i_status moved = IN_PROGRESS
     \<and> i_completedAt moved = Some 300"
proof -
  let ?u = "Some \<lparr>au_id = ''s1'', au_role = SUPERVISOR\<rparr>"
  let ?a = "[''title'', ''description'', ''address'', ''latitude'', ''longitude'',
             ''status'', ''priority'', ''assignedToId'', ''categoryId'',
             ''subcategoryId'', ''isEmergency'']"
  have c: "credentials ?u = Some (''s1'', SUPERVISOR)"
    by (simp add: credentials_def)
  have f1: "find (\<lambda>i. i_id i = ''i2'') (issues db_issues) = Some issue_hole"
    by (simp add: db_issues_def issue_hole_def)
  have p1: "update_permission ''s1'' SUPERVISOR issue_hole = Some ?a"
    by (simp add: update_permission_def)
  have v1: "updateIssueSchema (\<lambda>s. True) [''status'' \<mapsto> JStr ''COMPLETED'']"
    by (simp add: updateIssueSchema_def optional_def z_enum_def)
  obtain updated db' where e1: "put_issue (\<lambda>s. True) ?u ''i2''
      [''status'' \<mapsto> JStr ''COMPLETED''] 500 db_issues = (Inr updated, db')"
    using c f1 p1 v1
    by (simp add: put_issue_def updateIssue_def filterUpdateData_def stamp_completedAt_def
        issue_data_def setters status_of_name_def issue_hole_def)
  have s1: "filterUpdateData ?a [''status'' \<mapsto> JStr ''COMPLETED''] ''status''
      = Some (JStr ''COMPLETED'') \<and> i_status issue_hole \<noteq> COMPLETED"
    by (simp add: filterUpdateData_def issue_hole_def)
  from put_issue_completedAt [OF e1 c f1 p1] s1
  have r1: "i_status updated = COMPLETED" "i_completedAt updated = Some 500"
    "find (\<lambda>i. i_id i = ''i2'') (issues db') = Some updated"
    by blast+
  have f2: "find (\<lambda>i. i_id i = ''i3'') (issues db_done) = Some issue_done"
    by (simp add: db_done_def issue_done_def)
  have p2: "update_permission ''s1'' SUPERVISOR issue_done = Some ?a"
    by (simp add: update_permission_def)
  have v2: "updateIssueSchema (\<lambda>s. True) [''status'' \<mapsto> JStr ''IN_PROGRESS'']"
    by (simp add: updateIssueSchema_def optional_def z_enum_def)
  have d2: "issue_data db_done (stamp_completedAt 900 issue_done
      (filterUpdateData ?a [''status'' \<mapsto> JStr ''IN_PROGRESS''])) issue_done
      = Some (issue_done\<lparr>i_status := IN_PROGRESS\<rparr>)"
    by (simp add: filterUpdateData_def stamp_completedAt_def issue_data_def setters
        status_of_name_def)
  obtain moved db'' where e2: "put_issue (\<lambda>s. True) ?u ''i3''
      [''status'' \<mapsto> JStr ''IN_PROGRESS''] 900 db_done = (Inr moved, db'')"
    and m: "moved = issue_done\<lparr>i_status := IN_PROGRESS\<rparr>"
    using c f2 p2 v2 d2 by (simp add: put_issue_def updateIssue_def)
  have s2: "i_status issue_done = COMPLETED \<and> i_status moved \<noteq> COMPLETED"
    by (simp add: m issue_done_def)
  from put_issue_completedAt [OF e2 c f2 p2] s2
  have "i_completedAt moved = i_completedAt issue_done" by blast
  then have r2: "i_completedAt moved = Some 300" "i_status moved = IN_PROGRESS"
    by (simp_all add: m issue_done_def)
  have "i_status issue_hole = PENDING" "i_completedAt issue_hole = None"
    "i_status issue_done = COMPLETED"
    by (simp_all add: issue_hole_def issue_done_def)
  with e1 r1 e2 r2 show ?thesis by blast
qed

lemma set_valid:
  "optional (z_string_min n) v
     \<Longrightarrow> set_text v ut i = Some (case v of Some (JStr s) \<Rightarrow> ut s i | _ \<Rightarrow> i)"
  "optional z_number v
     \<Longrightarrow> set_float v uf i = Some (case v of Some (JNum r) \<Rightarrow> uf (Some r) i | _ \<Rightarrow> i)"
  by (auto simp: setters optional_def z_string_min_def z_number_def
      split: option.splits js_value.splits)

lemma user_data_succeeds:
  assumes "updateIssueSchema is_cuid body"
  shows "\<exists>j. issue_data db
           (filterUpdateData [''title'', ''description'', ''address'', ''latitude'', ''longitude'']
              body) i = Some j"
proof -
  from assms have v: "optional (z_string_min 1) (body ''title'')"
    "optional (z_string_min 10) (body ''description'')"
    "optional (z_string_min 1) (body ''address'')"
    "optional z_number (body ''latitude'')" "optional z_number (body ''longitude'')"
    by (simp_all add: updateIssueSchema_def)
  show ?thesis
    by (simp add: issue_data_def filterUpdateData_def set_valid(1) [OF v(1)] set_valid(1) [OF v(2)]
        set_valid(1) [OF v(3)] set_valid(2) [OF v(4)] set_valid(2) [OF v(5)])
qed

text \<open>
  With a body the schema admits, the update of a USER who created the issue succeeds and
  leaves every field but title, description, address, latitude and longitude as it was.
\<close>

lemma put_issue_user_fields_valid:
  assumes "credentials user = Some (userId, USER)"
    and "find (\<lambda>i. i_id i = ident) (issues db) = Some current"
    and "i_createdById current = userId"
    and "updateIssueSchema is_cuid body"
  shows "\<exists>updated db'. put_issue is_cuid user ident body now db = (Inr updated, db')
       \<and> updated = current\<lparr>i_title := i_title updated, i_description := i_description updated,
                            i_address := i_address updated, i_latitude := i_latitude updated,
                            i_longitude := i_longitude updated\<rparr>
       \<and> i_status updated = i_status current
       \<and> i_priority updated = i_priority current
       \<and> i_assignedToId updated = i_assignedToId current
       \<and> i_categoryId updated = i_categoryId current
       \<and> i_subcategoryId updated = i_subcategoryId current
       \<and> i_isEmergency updated = i_isEmergency current
       \<and> db' = db\<lparr>issues := map (\<lambda>i. if i_id i = ident then updated else i) (issues db)\<rparr>"
proof -
  let ?a = "[''title'', ''description'', ''address'', ''latitude'', ''longitude'']"
  let ?f = "filterUpdateData ?a body"
  have p: "update_permission userId USER current = Some ?a"
    using assms(3) by (simp add: update_permission_def)
  have st: "stamp_completedAt now current ?f = ?f"
    by (simp add: stamp_completedAt_def filterUpdateData_def)
  from user_data_succeeds [OF assms(4)]
  obtain updated where r: "issue_data db ?f current = Some updated" by blast
  have e: "put_issue is_cuid user ident body now db
      = (Inr updated, db\<lparr>issues := map (\<lambda>i. if i_id i = ident then updated else i) (issues db)\<rparr>)"
    using assms(1,2,4) p r st by (simp add: put_issue_def updateIssue_def)
  note u = issue_data_result [OF r]
  have n: "?f ''status'' = None" "?f ''priority'' = None" "?f ''assignedToId'' = None"
    "?f ''categoryId'' = None" "?f ''subcategoryId'' = None" "?f ''isEmergency'' = None"
    "?f ''completedAt'' = None"
    by (simp_all add: filterUpdateData_def)
  have k: "updated = current\<lparr>i_title := text_val (?f ''title'') (i_title current),
               i_description := text_val (?f ''description'') (i_description current),
               i_address := text_val (?f ''address'') (i_address current),
               i_latitude := float_val (?f ''latitude'') (i_latitude current),
               i_longitude := float_val (?f ''longitude'') (i_longitude current)\<rparr>"
    by (subst u) (simp add: n vals)
  then obtain a b c d e where k': "updated = current\<lparr>i_title := a, i_description := b,
      i_address := c, i_latitude := d, i_longitude := e\<rparr>"
    by blast
  have "updated = current\<lparr>i_title := i_title updated, i_description := i_description updated,
                            i_address := i_address updated, i_latitude := i_latitude updated,
                            i_longitude := i_longitude updated\<rparr>"
    "i_status updated = i_status current" "i_priority updated = i_priority current"
    "i_assignedToId updated = i_assignedToId current" "i_categoryId updated = i_categoryId current"
    "i_subcategoryId updated = i_subcategoryId current"
    "i_isEmergency updated = i_isEmergency current"
    by (simp_all add: k')
  with e show ?thesis by blast
qed

text \<open>
  C5. For every update through \<^verbatim>\<open>PUT /api/issues/:id\<close> by a USER-role requester who
  created the issue: when the validation schema of the route admits the body, the
  request succeeds, the stored row differs from the row before in the fields title,
  description, address, latitude and longitude at most, and the values the body gives
  for status, priority, assignedToId, categoryId, subcategoryId and isEmergency are
  dropped (those fields are as before); when the schema refuses the value of some field
  of the body, permitted to the requester or not, the request is rejected with status
  400 and the store is as before.
\<close>

theorem put_issue_user_fields:
  assumes "credentials user = Some (userId, USER)"
    and "find (\<lambda>i. i_id i = ident) (issues db) = Some current"
    and "i_createdById current = userId"
  shows "if updateIssueSchema is_cuid body
         then (\<exists>updated db'. put_issue is_cuid user ident body now db = (Inr updated, db')
                \<and> updated = current\<lparr>i_title := i_title updated,
                                     i_description := i_description updated,
                                     i_address := i_address updated,
                                     i_latitude := i_latitude updated,
                                     i_longitude := i_longitude updated\<rparr>
                \<and> i_status updated = i_status current
                \<and> i_priority updated = i_priority current
                \<and> i_assignedToId updated = i_assignedToId current
                \<and> i_categoryId updated = i_categoryId current
                \<and> i_subcategoryId updated = i_subcategoryId current
                \<and> i_isEmergency updated = i_isEmergency current
                \<and> db' = db\<lparr>issues := map (\<lambda>i. if i_id i = ident then updated else i)
                                          (issues db)\<rparr>)
         else put_issue is_cuid user ident body now db
                = (Inl (ApiError 400 ''Validation failed''), db)"
proof (cases "updateIssueSchema is_cuid body")
  case True
  from put_issue_user_fields_valid [OF assms True, of now] True
  show ?thesis by simp
next
  case False
  then show ?thesis by (simp add: put_issue_def)
qed

theorem put_issue_user_fields_witness:
  "credentials (Some \<lparr>au_id = ''u1'', au_role = USER\<rparr>) = Some (''u1'', USER)
   \<and> find (\<lambda>i. i_id i = ''i2'') (issues db_issues) = Some issue_hole
   \<and> i_createdById issue_hole = ''u1''
   \<and> updateIssueSchema (\<lambda>s. True) body_citizen
   \<and> body_citizen ''status'' = Some (JStr ''COMPLETED'')
   \<and> body_citizen ''isEmergency'' = Some (JBool True)
   \<and> (\<exists>updated db'.
         put_issue (\<lambda>s. True) (Some \<lparr>au_id = ''u1'', au_role = USER\<rparr>) ''i2'' body_citizen 500
             db_issues = (Inr updated, db')
         \<and> i_status updated = PENDING \<and> i_priority updated = HIGH
         \<and> i_assignedToId updated = None \<and> \<not> i_isEmergency updated
         \<and> i_categoryId updated = ''c1'' \<and> i_subcategoryId updated = Some ''s1''
         \<and> issues db' = [updated, issue_lamp])
   \<and> \<not> updateIssueSchema (\<lambda>s. True) [''title'' \<mapsto> JStr []]
   \<and> put_issue (\<lambda>s. True) (Some \<lparr>au_id = ''u1'', au_role = USER\<rparr>) ''i2''
         [''title'' \<mapsto> JStr []] 500 db_issues
       = (Inl (ApiError 400 ''Validation failed''), db_issues)"
proof -
  have c: "credentials (Some \<lparr>au_id = ''u1'', au_role = USER\<rparr>) = Some (''u1'', USER)"
    by (simp add: credentials_def)
  have f: "find (\<lambda>i. i_id i = ''i2'') (issues db_issues) = Some issue_hole"
    by (simp add: db_issues_def issue_hole_def)
  have o: "i_createdById issue_hole = ''u1''"
    by (simp add: issue_hole_def)
  have v: "updateIssueSchema (\<lambda>s. True) body_citizen"
    by (simp add: updateIssueSchema_def body_citizen_def optional_def z_enum_def
        z_boolean_def z_cuid_def z_string_min_def)
  have w: "\<not> updateIssueSchema (\<lambda>s. True) [''title'' \<mapsto> JStr []]"
    by (simp add: updateIssueSchema_def optional_def z_string_min_def)
  from put_issue_user_fields [OF c f o, of "\<lambda>s. True" body_citizen 500] v
  obtain updated db' where e: "put_issue (\<lambda>s. True) (Some \<lparr>au_id = ''u1'', au_role = USER\<rparr>)
      ''i2'' body_citizen 500 db_issues = (Inr updated, db')"
    and r: "i_status updated = i_status issue_hole" "i_priority updated = i_priority issue_hole"
      "i_assignedToId updated = i_assignedToId issue_hole"
      "i_categoryId updated = i_categoryId issue_hole"
      "i_subcategoryId updated = i_subcategoryId issue_hole"
      "i_isEmergency updated = i_isEmergency issue_hole"
    and d: "db' = db_issues\<lparr>issues := map (\<lambda>i. if i_id i = ''i2'' then updated else i)
                                            (issues db_issues)\<rparr>"
    by auto
  from r have "i_status updated = PENDING" "i_priority updated = HIGH"
    "i_assignedToId updated = None" "\<not> i_isEmergency updated"
    "i_categoryId updated = ''c1''" "i_subcategoryId updated = Some ''s1''"
    by (simp_all add: issue_hole_def)
  moreover from d have "issues db' = [updated, issue_lamp]"
    by (simp add: db_issues_def issue_hole_def issue_lamp_def)
  ultimately have ok: "\<exists>updated db'.
         put_issue (\<lambda>s. True) (Some \<lparr>au_id = ''u1'', au_role = USER\<rparr>) ''i2'' body_citizen 500
             db_issues = (Inr updated, db')
         \<and> i_status updated = PENDING \<and> i_priority updated = HIGH
         \<and> i_assignedToId updated = None \<and> \<not> i_isEmergency updated
         \<and> i_categoryId updated = ''c1'' \<and> i_subcategoryId updated = Some ''s1''
         \<and> issues db' = [updated, issue_lamp]"
    using e by blast
  have b: "body_citizen ''status'' = Some (JStr ''COMPLETED'')"
    "body_citizen ''isEmergency'' = Some (JBool True)"
    by (simp_all add: body_citizen_def)
  from put_issue_user_fields [OF c f o, of "\<lambda>s. True" "[''title'' \<mapsto> JStr []]" 500] w
  have "put_issue (\<lambda>s. True) (Some \<lparr>au_id = ''u1'', au_role = USER\<rparr>) ''i2''
         [''title'' \<mapsto> JStr []] 500 db_issues
       = (Inl (ApiError 400 ''Validation failed''), db_issues)"
    by simp
  with c f o v b ok w show ?thesis by blast
qed

text \<open>
  The claim C5 says of every such update that the fields outside the permitted set are
  dropped and the request succeeds. The schema is checked on the whole body before the
  handler filters it: the creator's update with \<^verbatim>\<open>{status: 'DONE'}\<close>, whose only field
  is one a USER may not set, is rejected with status 400.
\<close>

theorem put_issue_user_status_rejected_counterexample:
  "credentials (Some \<lparr>au_id = ''u1'', au_role = USER\<rparr>) = Some (''u1'', USER)
   \<and> find (\<lambda>i. i_id i = ''i2'') (issues db_issues) = Some issue_hole
   \<and> i_createdById issue_hole = ''u1''
   \<and> put_issue (\<lambda>s. True) (Some \<lparr>au_id = ''u1'', au_role = USER\<rparr>) ''i2''
         [''status'' \<mapsto> JStr ''DONE''] 500 db_issues
       = (Inl (ApiError 400 ''Validation failed''), db_issues)"
  by (simp add: credentials_def db_issues_def issue_hole_def put_issue_def
      updateIssueSchema_def optional_def z_enum_def)

text \<open>
  Creating an issue with \<^verbatim>\<open>isEmergency = true\<close> stores the priority EMERGENCY,
  whatever priority the request names.
\<close>

lemma createIssue_emergency_priority:
  assumes "createIssue user r referenceNumber newId now db = (Inr issue, db')"
    and "cr_isEmergency r = Some True"
  shows "i_priority issue = EMERGENCY \<and> i_isEmergency issue \<and> issues db' = issues db @ [issue]"
  using assms
  by (auto simp: createIssue_def issue_create_def Let_def
      split: option.splits if_splits)

lemma body_eval: "updateIssueSchema (\<lambda>s. True)
   [''isEmergency'' \<mapsto> JBool True, ''priority'' \<mapsto> JStr ''LOW'']"
  by (simp add: updateIssueSchema_def optional_def z_enum_def z_boolean_def)

text \<open>
  C2. The claim: after a successful create or update with \<^verbatim>\<open>isEmergency = true\<close> the
  stored priority is EMERGENCY. \<^verbatim>\<open>createIssue\<close> does so; \<^verbatim>\<open>updateIssue\<close> does not:
  the update of issue \<^verbatim>\<open>i2\<close> with \<^verbatim>\<open>{isEmergency: true, priority: 'LOW'}\<close> stores
  the priority LOW beside the emergency flag.
\<close>

theorem put_issue_emergency_keeps_priority:
  "put_issue (\<lambda>s. True) (Some \<lparr>au_id = ''s1'', au_role = SUPERVISOR\<rparr>) ''i2''
       [''isEmergency'' \<mapsto> JBool True, ''priority'' \<mapsto> JStr ''LOW''] 500 db_issues
     = (Inr (issue_hole\<lparr>i_priority := LOW, i_isEmergency := True\<rparr>),
        db_issues\<lparr>issues := [issue_hole\<lparr>i_priority := LOW, i_isEmergency := True\<rparr>,
                               issue_lamp]\<rparr>)
   \<and> i_isEmergency (issue_hole\<lparr>i_priority := LOW, i_isEmergency := True\<rparr>)
   \<and> i_priority (issue_hole\<lparr>i_priority := LOW, i_isEmergency := True\<rparr>) \<noteq> EMERGENCY"
  by (simp add: put_issue_def body_eval updateIssue_def credentials_def db_issues_def
      issue_hole_def issue_lamp_def update_permission_def filterUpdateData_def
      stamp_completedAt_def issue_data_def setters priority_of_name_def)

subsection \<open>Export and import\<close>

lemma export_steps:
  "export_status s w
     = w\<lparr>w_status := (if qparam_truthy s then Some (QMany (qparam_list s)) else w_status w)\<rparr>"
  "export_priority s w
     = w\<lparr>w_priority := (if qparam_truthy s then Some (QMany (qparam_list s)) else w_priority w)\<rparr>"
  "where_categoryId c w = w\<lparr>w_categoryId := (if truthy_str c then c else w_categoryId w)\<rparr>"
  "where_subcategoryId c w
     = w\<lparr>w_subcategoryId := (if truthy_str c then c else w_subcategoryId w)\<rparr>"
  "where_dates d e w
     = w\<lparr>w_createdAt := (if d \<noteq> None \<or> e \<noteq> None then Some (d, e) else w_createdAt w)\<rparr>"
  "where_isEmergency b w
     = w\<lparr>w_isEmergency := (case b of Some x \<Rightarrow> Some (x = ''true'') | None \<Rightarrow> w_isEmergency w)\<rparr>"
  by (simp_all add: export_status_def export_priority_def where_categoryId_def
      where_subcategoryId_def where_dates_def where_isEmergency_def split: option.splits)

lemma qparam_list_many: "qparam_list (Some (QMany xs)) = xs"
  by (simp add: qparam_list_def)

lemma export_where_valid:
  "where_valid (exportIssues_where q) = export_query_valid q"
  by (simp add: exportIssues_where_def export_steps empty_where_def where_valid_def
      export_query_valid_def date_valid_def)

lemma export_where_matches:
  "where_matches (exportIssues_where q) i = satisfies_export_filters q i"
  by (auto simp: exportIssues_where_def export_steps empty_where_def where_matches_def
      satisfies_export_filters_def gte_ok_def lte_ok_def truthy_str_def qparam_list_many
      split: option.splits js_date.splits)

text \<open>
  What the handler does for a staff-role requester whose filter values are well formed:
  the document has one row for each issue that satisfies the filters of the query, the
  newer issue first, whoever the requester is.
\<close>

lemma exportIssues_filters_only:
  assumes "credentials user = Some (userId, userRole)" and "is_staff userRole"
    and "export_query_valid q"
  shows "\<exists>doc. exportIssues user q db = Inr doc
           \<and> set (x_rows doc) = {i \<in> set (issues db). satisfies_export_filters q i}
           \<and> length (x_rows doc) = length (filter (satisfies_export_filters q) (issues db))
           \<and> sorted (map (\<lambda>i. - i_createdAt i) (x_rows doc))"
proof -
  have m: "where_matches (exportIssues_where q) = satisfies_export_filters q"
    by (rule ext) (rule export_where_matches)
  from assms(2) have "userRole \<noteq> USER" by (auto simp: is_staff_def)
  with assms(1,3) show ?thesis
    by (auto simp: exportIssues_def export_where_valid m Let_def)
qed

text \<open>
  C3. The claim: the rows of an export are the issues that satisfy the filters of the
  caller and the visibility rule of the requester's role, so that the export of a
  SUPERVISOR holds only issues assigned to them, unassigned or created by them. The
  handler does not keep it: it builds its \<^verbatim>\<open>where\<close> object from the query alone, and the
  export of supervisor \<^verbatim>\<open>s1\<close> without filters has a row for issue \<^verbatim>\<open>i1\<close>, which is
  created by citizen \<^verbatim>\<open>u1\<close> and assigned to supervisor \<^verbatim>\<open>s2\<close>.
\<close>

theorem exportIssues_supervisor_unrestricted:
  "exportIssues (Some \<lparr>au_id = ''s1'', au_role = SUPERVISOR\<rparr>) no_export_filters db_issues
   = Inr \<lparr>x_rows = [issue_lamp, issue_hole], x_total = 2,
          x_statusCounts = [(IN_PROGRESS, 1), (PENDING, 1)], x_emergencyCount = 0\<rparr>
   \<and> satisfies_export_filters no_export_filters issue_lamp
   \<and> \<not> visible SUPERVISOR ''s1'' issue_lamp"
  by code_simp

lemma show_nat_digit: "n < 10 \<Longrightarrow> show_nat n = [''0123456789'' ! n]"
  by (simp add: show_nat.simps)

lemma issue_create_frame:
  assumes "issue_create i db = Some db'"
  shows "categories db' = categories db" "users db' = users db" "issues db' = issues db @ [i]"
  using assms by (auto simp: issue_create_def split: if_splits)

lemma import_row_report:
  "errors (fst (import_row m u c ins nid n r st))
     = errors (fst st) @ row_messages n (row_detail m u c ins nid n r (snd st))"
  "failed (fst (import_row m u c ins nid n r st))
     = failed (fst st) + length (row_messages n (row_detail m u c ins nid n r (snd st)))"
  "successful (fst (import_row m u c ins nid n r st)) + failed (fst (import_row m u c ins nid n r st))
     = successful (fst st) + failed (fst st) + 1"
  by (auto simp: import_row_def row_detail_def row_messages_def missing_required_def Let_def
      split: option.splits)

lemma upt_0_Suc: "[0..<Suc l] = 0 # map Suc [0..<l]"
  by (simp add: upt_conv_Cons map_Suc_upt del: upt_Suc)

lemma import_rows_errors:
  "errors (fst (import_rows m u c ins nid n rows st))
     = errors (fst st)
       @ concat (map (\<lambda>k. row_messages (n + k)
                         (row_detail m u c ins nid (n + k) (rows ! k)
                            (snd (import_rows m u c ins nid n (take k rows) st))))
                  [0..<length rows])"
proof (induction rows arbitrary: n st)
  case Nil
  show ?case by simp
next
  case (Cons r rows)
  let ?st = "import_row m u c ins nid n r st"
  have e: "map ((\<lambda>k. row_messages (n + k)
                  (row_detail m u c ins nid (n + k) ((r # rows) ! k)
                     (snd (import_rows m u c ins nid n (take k (r # rows)) st)))) \<circ> Suc)
             [0..<length rows]
         = map (\<lambda>k. row_messages (n + 1 + k)
                  (row_detail m u c ins nid (n + 1 + k) (rows ! k)
                     (snd (import_rows m u c ins nid (n + 1) (take k rows) ?st))))
             [0..<length rows]"
    by (rule map_cong) simp_all
  have "errors (fst (import_rows m u c ins nid n (r # rows) st))
      = errors (fst (import_rows m u c ins nid (n + 1) rows ?st))"
    by simp
  also have "\<dots> = errors (fst ?st)
       @ concat (map (\<lambda>k. row_messages (n + 1 + k)
                         (row_detail m u c ins nid (n + 1 + k) (rows ! k)
                            (snd (import_rows m u c ins nid (n + 1) (take k rows) ?st))))
                  [0..<length rows])"
    by (rule Cons.IH)
  also have "\<dots> = errors (fst st)
       @ concat (map (\<lambda>k. row_messages (n + k)
                         (row_detail m u c ins nid (n + k) ((r # rows) ! k)
                            (snd (import_rows m u c ins nid n (take k (r # rows)) st))))
                  [0..<length (r # rows)])"
    unfolding e [symmetric]
    by (simp add: upt_0_Suc import_row_report(1) del: upt_Suc import_rows.simps(2))
  finally show ?case .
qed

lemma import_rows_counts:
  "failed (fst (import_rows m u c ins nid n rows st)) + length (errors (fst st))
     = failed (fst st) + length (errors (fst (import_rows m u c ins nid n rows st)))"
  "successful (fst (import_rows m u c ins nid n rows st))
     + failed (fst (import_rows m u c ins nid n rows st))
     = successful (fst st) + failed (fst st) + length rows"
proof (induction rows arbitrary: n st)
  case Nil
  { case 1 show ?case by simp }
  { case 2 show ?case by simp }
next
  case (Cons r rows)
  { case 1
    from Cons.IH(1) [of "n + 1" "import_row m u c ins nid n r st"]
    show ?case by (simp add: import_row_report) }
  { case 2
    from Cons.IH(2) [of "n + 1" "import_row m u c ins nid n r st"]
      import_row_report(3) [of m u c ins nid n r st]
    show ?case by simp }
qed

lemma import_row_categories:
  "categories (snd (import_row m u c ins nid n r st)) = categories (snd st)"
  by (auto simp: import_row_def Let_def issue_create_def split: option.splits if_splits)

lemma import_rows_categories:
  "categories (snd (import_rows m u c ins nid n rows st)) = categories (snd st)"
  by (induction rows arbitrary: n st) (simp_all add: import_row_categories)

lemma import_rows_message:
  assumes "k < length rows"
    and "row_detail m u c ins nid (n + k) (rows ! k)
           (snd (import_rows m u c ins nid n (take k rows) st)) = Some d"
  shows "''Row '' @ show_nat (n + k) @ '': '' @ d
           \<in> set (errors (fst (import_rows m u c ins nid n rows st)))"
proof -
  have "''Row '' @ show_nat (n + k) @ '': '' @ d
      \<in> set (row_messages (n + k) (row_detail m u c ins nid (n + k) (rows ! k)
                (snd (import_rows m u c ins nid n (take k rows) st))))"
    using assms(2) by (simp add: row_messages_def)
  moreover have "k \<in> set [0..<length rows]"
    using assms(1) by simp
  ultimately show ?thesis
    unfolding import_rows_errors [of m u c ins nid n rows st] set_append set_concat set_map
    by blast
qed

text \<open>
  C6, as the handler has it. Importing a worksheet of a header and three data rows, the
  second of them with a blank address and the two others with all four cells filled,
  category names that resolve to active categories and rows the store accepts, gives
  the report of 2 successful rows, 1 failed row and the one message
  \<^verbatim>\<open>Row 3: Missing required fields\<close>. In every import the report lists, in the order
  of the rows, one message for each data row that fails, whatever the reason (a blank
  required cell, an unresolved category, a refusal of the store), and each message
  begins with the number of the row in the worksheet, where the header is row 1: the
  message of the data row at position \<open>k\<close> (counted from 0) begins \<open>Row k + 2\<close>. The
  failed count is the number of messages, and every data row is counted as successful
  or failed.
\<close>

theorem importIssues_three_rows:
  assumes "credentials user = Some (userId, ADMIN)"
    and "cell1 r1 \<noteq> [] \<and> cell2 r1 \<noteq> [] \<and> cell3 r1 \<noteq> [] \<and> cell4 r1 \<noteq> []"
    and "cell3 r2 = []"
    and "cell1 r3 \<noteq> [] \<and> cell2 r3 \<noteq> [] \<and> cell3 r3 \<noteq> [] \<and> cell4 r3 \<noteq> []"
    and "find (\<lambda>c. c_name c = cell4 r1 \<and> c_isActive c) (categories db) = Some c1"
    and "find (\<lambda>c. c_name c = cell4 r3 \<and> c_isActive c) (categories db) = Some c3"
    and "issue_create (imported_issue userId clock inserted newId 2 r1 c1) db = Some db1"
    and "issue_create (imported_issue userId clock inserted newId 4 r3 c3) db1 = Some db2"
  shows "importIssues message_of clock inserted newId user (Worksheet [header, r1, r2, r3]) db
           = (Inr \<lparr>successful = 2, failed = 1, errors = [''Row 3: Missing required fields'']\<rparr>,
              db2)
       \<and> (\<forall>hd rows store. \<exists>report store'.
            importIssues message_of clock inserted newId user (Worksheet (hd # rows)) store
              = (Inr report, store')
            \<and> errors report
                = concat (map (\<lambda>k. row_messages (k + 2)
                                  (row_detail message_of userId clock inserted newId (k + 2)
                                     (rows ! k)
                                     (snd (import_rows message_of userId clock inserted newId 2
                                             (take k rows)
                                             (\<lparr>successful = 0, failed = 0, errors = []\<rparr>,
                                              store)))))
                           [0..<length rows])
            \<and> failed report = length (errors report)
            \<and> successful report + failed report = length rows
            \<and> (\<forall>k. k < length rows \<and> missing_required (rows ! k) \<longrightarrow>
                  ''Row '' @ show_nat (k + 2) @ '': Missing required fields''
                    \<in> set (errors report))
            \<and> (\<forall>k. k < length rows \<and> \<not> missing_required (rows ! k)
                    \<and> find (\<lambda>c. c_name c = cell4 (rows ! k) \<and> c_isActive c) (categories store)
                        = None \<longrightarrow>
                  ''Row '' @ show_nat (k + 2) @ '': Category '' @ [CHR 0x27] @ cell4 (rows ! k)
                      @ [CHR 0x27] @ '' not found''
                    \<in> set (errors report)))"
proof (intro conjI allI)
  let ?st0 = "(\<lparr>successful = 0, failed = 0, errors = []\<rparr>, db)"
  have s1: "import_row message_of userId clock inserted newId 2 r1 ?st0
      = (\<lparr>successful = 1, failed = 0, errors = []\<rparr>, db1)"
    using assms(2,5,7) by (simp add: import_row_def)
  have s2: "import_row message_of userId clock inserted newId 3 r2
       (\<lparr>successful = 1, failed = 0, errors = []\<rparr>, db1)
      = (\<lparr>successful = 1, failed = 1, errors = [''Row 3: Missing required fields'']\<rparr>, db1)"
    using assms(3) by (simp add: import_row_def show_nat_digit)
  have c: "categories db1 = categories db"
    by (rule issue_create_frame [OF assms(7)])
  have s3: "import_row message_of userId clock inserted newId 4 r3
       (\<lparr>successful = 1, failed = 1, errors = [''Row 3: Missing required fields'']\<rparr>, db1)
      = (\<lparr>successful = 2, failed = 1, errors = [''Row 3: Missing required fields'']\<rparr>, db2)"
    using assms(4,6,8) c by (simp add: import_row_def)
  have n: "(2::nat) + 1 = 3" "(3::nat) + 1 = 4" by simp_all
  have rows: "import_rows message_of userId clock inserted newId 2 [r1, r2, r3] ?st0
      = (\<lparr>successful = 2, failed = 1, errors = [''Row 3: Missing required fields'']\<rparr>, db2)"
    by (simp only: import_rows.simps n s1 s2 s3)
  show "importIssues message_of clock inserted newId user (Worksheet [header, r1, r2, r3]) db
           = (Inr \<lparr>successful = 2, failed = 1, errors = [''Row 3: Missing required fields'']\<rparr>,
              db2)"
    using assms(1) by (simp add: importIssues_def rows del: import_rows.simps)
next
  fix hd :: SheetRow and rows :: "SheetRow list" and store :: Db
  let ?i = "(\<lparr>successful = 0, failed = 0, errors = []\<rparr>, store)"
  let ?r = "import_rows message_of userId clock inserted newId 2 rows ?i"
  have run: "importIssues message_of clock inserted newId user (Worksheet (hd # rows)) store
      = (Inr (fst ?r), snd ?r)"
    using assms(1) by (simp add: importIssues_def Let_def del: import_rows.simps)
  have e: "errors (fst ?r)
      = concat (map (\<lambda>k. row_messages (k + 2)
                        (row_detail message_of userId clock inserted newId (k + 2) (rows ! k)
                           (snd (import_rows message_of userId clock inserted newId 2
                                   (take k rows) ?i))))
                 [0..<length rows])"
    using import_rows_errors [of message_of userId clock inserted newId 2 rows ?i]
    by (simp add: add.commute)
  have f: "failed (fst ?r) = length (errors (fst ?r))"
    using import_rows_counts(1) [of message_of userId clock inserted newId 2 rows ?i] by simp
  have t: "successful (fst ?r) + failed (fst ?r) = length rows"
    using import_rows_counts(2) [of message_of userId clock inserted newId 2 rows ?i] by simp
  have g: "''Row '' @ show_nat (k + 2) @ '': Missing required fields'' \<in> set (errors (fst ?r))"
    if "k < length rows \<and> missing_required (rows ! k)" for k
  proof -
    from that have "row_detail message_of userId clock inserted newId (2 + k) (rows ! k)
        (snd (import_rows message_of userId clock inserted newId 2 (take k rows) ?i))
        = Some ''Missing required fields''"
      by (simp add: row_detail_def)
    from import_rows_message [OF _ this] that show ?thesis
      by (simp add: add.commute)
  qed
  have h: "''Row '' @ show_nat (k + 2) @ '': Category '' @ [CHR 0x27] @ cell4 (rows ! k)
        @ [CHR 0x27] @ '' not found'' \<in> set (errors (fst ?r))"
    if "k < length rows \<and> \<not> missing_required (rows ! k)
        \<and> find (\<lambda>c. c_name c = cell4 (rows ! k) \<and> c_isActive c) (categories store) = None" for k
  proof -
    from that have "row_detail message_of userId clock inserted newId (2 + k) (rows ! k)
        (snd (import_rows message_of userId clock inserted newId 2 (take k rows) ?i))
        = Some (''Category '' @ [CHR 0x27] @ cell4 (rows ! k) @ [CHR 0x27] @ '' not found'')"
      by (simp add: row_detail_def import_rows_categories)
    from import_rows_message [OF _ this] that show ?thesis
      by (simp add: add.commute)
  qed
  from run e f t g h
  show "\<exists>report store'.
            importIssues message_of clock inserted newId user (Worksheet (hd # rows)) store
              = (Inr report, store')
            \<and> errors report
                = concat (map (\<lambda>k. row_messages (k + 2)
                                  (row_detail message_of userId clock inserted newId (k + 2)
                                     (rows ! k)
                                     (snd (import_rows message_of userId clock inserted newId 2
                                             (take k rows)
                                             (\<lparr>successful = 0, failed = 0, errors = []\<rparr>,
                                              store)))))
                           [0..<length rows])
            \<and> failed report = length (errors report)
            \<and> successful report + failed report = length rows
            \<and> (\<forall>k. k < length rows \<and> missing_required (rows ! k) \<longrightarrow>
                  ''Row '' @ show_nat (k + 2) @ '': Missing required fields''
                    \<in> set (errors report))
            \<and> (\<forall>k. k < length rows \<and> \<not> missing_required (rows ! k)
                    \<and> find (\<lambda>c. c_name c = cell4 (rows ! k) \<and> c_isActive c) (categories store)
                        = None \<longrightarrow>
                  ''Row '' @ show_nat (k + 2) @ '': Category '' @ [CHR 0x27] @ cell4 (rows ! k)
                      @ [CHR 0x27] @ '' not found''
                    \<in> set (errors report))"
    by blast
qed

lemma import_sample:
  "find (\<lambda>c. c_name c = cell4 row_pothole \<and> c_isActive c) (categories db_cats) = Some cat_roads"
  "find (\<lambda>c. c_name c = cell4 row_flicker \<and> c_isActive c) (categories db_cats) = Some cat_lights"
  "issue_create (imported_issue ''a1'' clock0 inserted0 newId0 2 row_pothole cat_roads) db_cats = Some db_imp1"
  "issue_create (imported_issue ''a1'' clock0 inserted0 newId0 4 row_flicker cat_lights) db_imp1 = Some db_imp2"
  by (simp_all add: db_cats_def db_imp1_def db_imp2_def cat_roads_def cat_lights_def
      row_pothole_def row_flicker_def issue_create_def imported_issue_def admin1_def
      newId0_def clock0_def inserted0_def show_int_def show_nat.simps)

theorem importIssues_three_rows_witness:
  "credentials (Some \<lparr>au_id = ''a1'', au_role = ADMIN\<rparr>) = Some (''a1'', ADMIN)
   \<and> cell3 row_dark = []
   \<and> importIssues message0 clock0 inserted0 newId0 (Some \<lparr>au_id = ''a1'', au_role = ADMIN\<rparr>)
        (Worksheet [row_header, row_pothole, row_dark, row_flicker]) db_cats
       = (Inr \<lparr>successful = 2, failed = 1, errors = [''Row 3: Missing required fields'']\<rparr>,
          db_imp2)
   \<and> length (issues db_imp2) = 2
   \<and> missing_required row_dark \<and> \<not> missing_required row_park
   \<and> find (\<lambda>c. c_name c = cell4 row_park \<and> c_isActive c) (categories db_cats) = None
   \<and> (\<exists>report store'.
         importIssues message0 clock0 inserted0 newId0 (Some \<lparr>au_id = ''a1'', au_role = ADMIN\<rparr>)
           (Worksheet [row_header, row_dark, row_park]) db_cats = (Inr report, store')
         \<and> ''Row 2: Missing required fields'' \<in> set (errors report)
         \<and> ''Row 3: Category '' @ [CHR 0x27] @ ''Parks'' @ [CHR 0x27] @ '' not found''
              \<in> set (errors report)
         \<and> failed report = length (errors report)
         \<and> successful report + failed report = 2)"
proof -
  have c: "credentials (Some \<lparr>au_id = ''a1'', au_role = ADMIN\<rparr>) = Some (''a1'', ADMIN)"
    by (simp add: credentials_def)
  have r1: "cell1 row_pothole \<noteq> [] \<and> cell2 row_pothole \<noteq> [] \<and> cell3 row_pothole \<noteq> []
      \<and> cell4 row_pothole \<noteq> []"
    by (simp add: row_pothole_def)
  have r2: "cell3 row_dark = []"
    by (simp add: row_dark_def)
  have r3: "cell1 row_flicker \<noteq> [] \<and> cell2 row_flicker \<noteq> [] \<and> cell3 row_flicker \<noteq> []
      \<and> cell4 row_flicker \<noteq> []"
    by (simp add: row_flicker_def)
  have l: "length (issues db_imp2) = 2"
    by (simp add: db_imp2_def)
  have m0: "missing_required row_dark"
    by (simp add: missing_required_def row_dark_def)
  have m1: "\<not> missing_required row_park"
    by (simp add: missing_required_def row_park_def)
  have n1: "find (\<lambda>c. c_name c = cell4 row_park \<and> c_isActive c) (categories db_cats) = None"
    by (simp add: db_cats_def cat_roads_def cat_lights_def row_park_def)
  note t = importIssues_three_rows [OF c r1 r2 r3 import_sample, of message0 row_header]
  from t have scenario: "importIssues message0 clock0 inserted0 newId0
        (Some \<lparr>au_id = ''a1'', au_role = ADMIN\<rparr>)
        (Worksheet [row_header, row_pothole, row_dark, row_flicker]) db_cats
       = (Inr \<lparr>successful = 2, failed = 1, errors = [''Row 3: Missing required fields'']\<rparr>,
          db_imp2)"
    by (rule conjunct1)
  from t [THEN conjunct2, rule_format, of row_header "[row_dark, row_park]" db_cats]
  obtain report store' where
    g: "importIssues message0 clock0 inserted0 newId0 (Some \<lparr>au_id = ''a1'', au_role = ADMIN\<rparr>)
           (Worksheet [row_header, row_dark, row_park]) db_cats = (Inr report, store')"
    and cnt: "failed report = length (errors report)"
      "successful report + failed report = length [row_dark, row_park]"
    and gm: "\<forall>k. k < length [row_dark, row_park] \<and> missing_required ([row_dark, row_park] ! k)
        \<longrightarrow> ''Row '' @ show_nat (k + 2) @ '': Missing required fields'' \<in> set (errors report)"
    and gc: "\<forall>k. k < length [row_dark, row_park] \<and> \<not> missing_required ([row_dark, row_park] ! k)
          \<and> find (\<lambda>c. c_name c = cell4 ([row_dark, row_park] ! k) \<and> c_isActive c)
               (categories db_cats) = None
        \<longrightarrow> ''Row '' @ show_nat (k + 2) @ '': Category '' @ [CHR 0x27]
              @ cell4 ([row_dark, row_park] ! k) @ [CHR 0x27] @ '' not found''
            \<in> set (errors report)"
    by blast
  from gm [rule_format, of 0] m0
  have a: "''Row 2: Missing required fields'' \<in> set (errors report)"
    by (simp add: show_nat_digit)
  from gc [rule_format, of 1] m1 n1
  have b: "''Row 3: Category '' @ [CHR 0x27] @ ''Parks'' @ [CHR 0x27] @ '' not found''
      \<in> set (errors report)"
    by (simp add: show_nat_digit row_park_def)
  from cnt have "successful report + failed report = 2" by simp
  with c r2 scenario l m0 m1 n1 g a b cnt(1) show ?thesis by blast
qed

lemma import_sample_result:
  "importIssues message0 clock0 inserted0 newId0 (Some \<lparr>au_id = ''a1'', au_role = ADMIN\<rparr>)
        (Worksheet [row_header, row_pothole, row_dark, row_flicker]) db_cats
     = (Inr \<lparr>successful = 2, failed = 1, errors = [''Row 3: Missing required fields'']\<rparr>,
        db_imp2)"
proof -
  have n: "(2::nat) + 1 = 3" "(3::nat) + 1 = 4" by simp_all
  have s1: "import_row message0 ''a1'' clock0 inserted0 newId0 2 row_pothole
        (\<lparr>successful = 0, failed = 0, errors = []\<rparr>, db_cats)
      = (\<lparr>successful = 1, failed = 0, errors = []\<rparr>, db_imp1)"
    using import_sample(1,3) by (simp add: import_row_def row_pothole_def)
  have s2: "import_row message0 ''a1'' clock0 inserted0 newId0 3 row_dark
        (\<lparr>successful = 1, failed = 0, errors = []\<rparr>, db_imp1)
      = (\<lparr>successful = 1, failed = 1, errors = [''Row 3: Missing required fields'']\<rparr>, db_imp1)"
    by (simp add: import_row_def row_dark_def show_nat.simps)
  have c: "categories db_imp1 = categories db_cats"
    by (simp add: db_imp1_def)
  have s3: "import_row message0 ''a1'' clock0 inserted0 newId0 4 row_flicker
        (\<lparr>successful = 1, failed = 1, errors = [''Row 3: Missing required fields'']\<rparr>, db_imp1)
      = (\<lparr>successful = 2, failed = 1, errors = [''Row 3: Missing required fields'']\<rparr>, db_imp2)"
    using import_sample(2,4) c by (simp add: import_row_def row_flicker_def)
  have rows: "import_rows message0 ''a1'' clock0 inserted0 newId0 2 [row_pothole, row_dark, row_flicker]
        (\<lparr>successful = 0, failed = 0, errors = []\<rparr>, db_cats)
      = (\<lparr>successful = 2, failed = 1, errors = [''Row 3: Missing required fields'']\<rparr>, db_imp2)"
    by (simp only: import_rows.simps n s1 s2 s3)
  show ?thesis
    by (simp add: importIssues_def credentials_def rows del: import_rows.simps)
qed

text \<open>
  The claim C6 as stated expects the message \<^verbatim>\<open>Row 2: Missing required fields\<close>,
  numbering the data rows from 1.
\<close>

theorem importIssues_row_number_counterexample:
  "fst (importIssues message0 clock0 inserted0 newId0 (Some \<lparr>au_id = ''a1'', au_role = ADMIN\<rparr>)
          (Worksheet [row_header, row_pothole, row_dark, row_flicker]) db_cats)
     = Inr \<lparr>successful = 2, failed = 1, errors = [''Row 3: Missing required fields'']\<rparr>
   \<and> fst (importIssues message0 clock0 inserted0 newId0 (Some \<lparr>au_id = ''a1'', au_role = ADMIN\<rparr>)
          (Worksheet [row_header, row_pothole, row_dark, row_flicker]) db_cats)
     \<noteq> Inr \<lparr>successful = 2, failed = 1, errors = [''Row 2: Missing required fields'']\<rparr>"
  by (simp add: import_sample_result)

subsection \<open>Photo upload\<close>

lemma set_unlink_files: "set (unlink_files batch dir) = set dir - uf_path ` set batch"
  by (induction batch arbitrary: dir) (auto simp: unlinkSync_def)

text \<open>
  Whoever sends it, a batch that would take the issue over the maximum is answered
  with an error, and the store is as before.
\<close>

lemma uploadPhotos_over_limit_rejected:
  assumes "int (length (filter (\<lambda>p. p_issueId p = issueId) (photos db))) + int (length batch) > m"
  shows "\<exists>e dir'. uploadPhotos (Some m) newId now user issueId (Some batch) description (db, dir)
             = (Inl e, db, dir')"
  using assms
  by (auto simp: uploadPhotos_def Let_def split: option.splits)

text \<open>
  On the limit branch, which a requester who may upload to the issue reaches (a staff
  role, or the USER who created the issue), the answer is an error of status 400, the
  store is as before, and no file of the batch is left in the upload directory.
\<close>

lemma uploadPhotos_over_limit:
  assumes "credentials user = Some (userId, userRole)"
    and "find (\<lambda>i. i_id i = issueId) (issues db) = Some issue"
    and "userRole \<noteq> USER \<or> i_createdById issue = userId"
    and "int (length (filter (\<lambda>p. p_issueId p = issueId) (photos db))) + int (length batch) > m"
  shows "\<exists>msg dir'. uploadPhotos (Some m) newId now user issueId (Some batch) description (db, dir)
             = (Inl (ApiError 400 msg), db, dir')
           \<and> list_all (\<lambda>file. uf_path file \<notin> set dir') batch
           \<and> set dir' \<subseteq> set dir"
proof (cases "batch = []")
  case True
  with assms(1-3) show ?thesis
    by (auto simp: uploadPhotos_def)
next
  case False
  with assms have "uploadPhotos (Some m) newId now user issueId (Some batch) description (db, dir)
      = (Inl (ApiError 400 (''Maximum '' @ show_int m @ '' photos allowed per issue. Current: ''
             @ show_int (int (length (filter (\<lambda>p. p_issueId p = issueId) (photos db)))))),
         db, unlink_files batch dir)"
    by (auto simp: uploadPhotos_def Let_def)
  moreover have "list_all (\<lambda>file. uf_path file \<notin> set (unlink_files batch dir)) batch"
    by (auto simp: list_all_iff set_unlink_files)
  moreover have "set (unlink_files batch dir) \<subseteq> set dir"
    by (auto simp: set_unlink_files)
  ultimately show ?thesis by blast
qed

text \<open>
  C7. The claim: every batch that would take an issue over the maximum is rejected, no
  photo row is created, and the files written for the batch are removed. The handler
  removes them on the limit branch and when the store fails, but not on the branch that
  answers 403: a USER who did not create the issue sends two files to issue \<^verbatim>\<open>i2\<close>,
  which has one photo under a maximum of two; the batch is rejected, no row is created,
  and both files are still in the upload directory.
\<close>

theorem uploadPhotos_denied_keeps_files:
  "int (length (filter (\<lambda>p. p_issueId p = ''i2'') (photos db_photos)))
        + int (length [file_a, file_b]) > 2
   \<and> uploadPhotos (Some 2) (\<lambda>k. ''n'' @ show_nat k) 70
        (Some \<lparr>au_id = ''u2'', au_role = USER\<rparr>) ''i2'' (Some [file_a, file_b]) None
        (db_photos, dir_photos)
      = (Inl (ApiError 403 ''Access denied''), db_photos, dir_photos)
   \<and> uf_path file_a \<in> set dir_photos \<and> uf_path file_b \<in> set dir_photos"
  by (simp add: uploadPhotos_def credentials_def db_photos_def db_issues_def issue_hole_def
      photo_old_def file_a_def file_b_def dir_photos_def)


end
